theory Spec2Isabelle
  imports Complex_Main "HOL-Library.Word"
begin

unbundle bit_operations_syntax

section \<open>JavaScript values\<close>

text \<open>
  The values that travel through the SDK as \<open>any\<close>: JSON values, plus
  \<open>Uint8Array\<close> (the \<open>binaryData\<close> field of a decoded binary message).
  An object is the list of its own properties in insertion order; \<open>undefined\<close> is
  \<open>None\<close> of an option wherever the source can meet it.
\<close>

type_synonym byte = "8 word"
type_synonym bytes = "byte list"

datatype jsval =
    JNull
  | JBool bool
  | JNum int
  | JStr string
  | JArr "jsval list"
  | JObj "(string \<times> jsval) list"
  | JBytes bytes

text \<open>JavaScript truthiness (\<open>!x\<close> is its negation); \<open>undefined\<close> is falsy.\<close>

fun truthy :: "jsval \<Rightarrow> bool" where
  "truthy JNull = False"
| "truthy (JBool b) = b"
| "truthy (JNum n) = (n \<noteq> 0)"
| "truthy (JStr s) = (s \<noteq> [])"
| "truthy (JArr _) = True"
| "truthy (JObj _) = True"
| "truthy (JBytes _) = True"

definition truthy_opt :: "jsval option \<Rightarrow> bool" where
  "truthy_opt v = (case v of None \<Rightarrow> False | Some x \<Rightarrow> truthy x)"

text \<open>Property assignment \<open>o[k] = v\<close>: an existing key keeps its place, a new key
  goes last.\<close>

fun obj_set :: "string \<Rightarrow> jsval \<Rightarrow> (string \<times> jsval) list \<Rightarrow> (string \<times> jsval) list" where
  "obj_set k v [] = [(k, v)]"
| "obj_set k v ((k', v') # fs) = (if k' = k then (k, v) # fs else (k', v') # obj_set k v fs)"

text \<open>Decimal digits of an array index, the property key of element \<open>n\<close>.\<close>

fun index_key :: "nat \<Rightarrow> string" where
  "index_key n =
     (if n < 10 then [char_of (48 + n)]
      else index_key (n div 10) @ [char_of (48 + n mod 10)])"

declare index_key.simps [simp del]

text \<open>The own enumerable properties that object spread \<open>{...v}\<close> copies.\<close>

fun spread_fields :: "jsval \<Rightarrow> (string \<times> jsval) list" where
  "spread_fields (JObj fs) = fs"
| "spread_fields (JArr xs) = zip (map index_key [0..<length xs]) xs"
| "spread_fields (JStr s) = zip (map index_key [0..<length s]) (map (\<lambda>c. JStr [c]) s)"
| "spread_fields (JBytes bs) = zip (map index_key [0..<length bs]) (map (\<lambda>b. JNum (uint b)) bs)"
| "spread_fields _ = []"

section \<open>The platform: JSON and UTF-8\<close>

text \<open>
  \<open>JSON.stringify\<close>, \<open>JSON.parse\<close>, \<open>TextEncoder.encode\<close> and
  \<open>TextDecoder.decode\<close> belong to the JavaScript runtime, not to the repository; the
  codec takes them as a parameter. \<open>JSON.parse\<close> throws a SyntaxError where
  \<open>json_parse\<close> is \<open>None\<close>; the decoder (non-fatal mode) never throws.
\<close>

record platform =
  json_stringify :: "jsval \<Rightarrow> string"
  json_parse :: "string \<Rightarrow> jsval option"
  text_encode :: "string \<Rightarrow> bytes"
  text_decode :: "bytes \<Rightarrow> string"

text \<open>\<open>String.prototype.trim\<close> on the code units a \<open>char\<close> can hold.\<close>

definition is_space :: "char \<Rightarrow> bool" where
  "is_space c = (of_char c \<in> {9, 10, 11, 12, 13, 32, 160 :: nat})"

definition trim :: "string \<Rightarrow> string" where
  "trim s = rev (dropWhile is_space (rev (dropWhile is_space s)))"

section \<open>Binary protocol (binary-protocol.ts)\<close>

text \<open>\<open>DataView.getUint32(0, true)\<close> over the four bytes at an offset, and
  \<open>setUint32(0, n, true)\<close> into a fresh four-byte array (the value is taken modulo
  \<open>2^32\<close>).\<close>

fun le_value :: "bytes \<Rightarrow> nat" where
  "le_value [] = 0"
| "le_value (b # bs) = unat b + 256 * le_value bs"

definition getUint32 :: "bytes \<Rightarrow> nat \<Rightarrow> nat" where
  "getUint32 bs off = le_value (take 4 (drop off bs))"

definition setUint32 :: "nat \<Rightarrow> bytes" where
  "setUint32 n =
     [of_nat (n mod 256), of_nat (n div 256 mod 256),
      of_nat (n div 65536 mod 256), of_nat (n div 16777216 mod 256)]"

text \<open>\<open>bytes.slice(a, b)\<close> for \<open>a \<le> b\<close>; both ends are clamped to the length.\<close>

definition bytes_slice :: "bytes \<Rightarrow> nat \<Rightarrow> nat \<Rightarrow> bytes" where
  "bytes_slice bs a b = take (b - a) (drop a bs)"

text \<open>Every \<open>throw\<close> of the codec. The two wrappers are the \<open>catch\<close> blocks that
  rethrow with the inner message appended.\<close>

datatype decode_error =
    MessageTooShort nat
  | PayloadTruncated nat nat
  | ZeroPayloadLength
  | MetadataTooShort nat
  | MetadataTruncated nat nat
  | ZeroMetadataLength
  | JsonSyntaxError
  | UnknownTypeEmptyPayload nat
  | MetadataParseFailed decode_error
  | ProtocolParseFailed nat decode_error
  | MissingMetadataOrBinaryData
  | UnsupportedMessageType nat
  | TypeError

definition parse_json_bytes :: "platform \<Rightarrow> bytes \<Rightarrow> decode_error + jsval" where
  "parse_json_bytes rt bs =
     (case json_parse rt (text_decode rt bs) of
        None \<Rightarrow> Inl JsonSyntaxError
      | Some v \<Rightarrow> Inr v)"

definition parseBinaryPayloadWithMetadata :: "platform \<Rightarrow> bytes \<Rightarrow> decode_error + jsval" where
  "parseBinaryPayloadWithMetadata rt payloadBytes =
     (if length payloadBytes < 4 then Inl (MetadataTooShort (length payloadBytes))
      else
        let metadataLength = getUint32 payloadBytes 0 in
        if length payloadBytes < 4 + metadataLength
        then Inl (MetadataTruncated (4 + metadataLength) (length payloadBytes))
        else if metadataLength = 0 then Inl ZeroMetadataLength
        else
          let metadataBytes = bytes_slice payloadBytes 4 (4 + metadataLength);
              binaryDataBytes = drop (4 + metadataLength) payloadBytes
          in case parse_json_bytes rt metadataBytes of
               Inl e \<Rightarrow> Inl (MetadataParseFailed e)
             | Inr metadata \<Rightarrow>
                 Inr (JObj (obj_set ''binaryData'' (JBytes binaryDataBytes) (spread_fields metadata))))"

definition parseCompressedPayload :: "platform \<Rightarrow> bytes \<Rightarrow> decode_error + jsval" where
  "parseCompressedPayload rt payloadBytes = parse_json_bytes rt payloadBytes"

definition parseLatteStreamBinaryProtocol :: "platform \<Rightarrow> bytes \<Rightarrow> decode_error + jsval" where
  "parseLatteStreamBinaryProtocol rt bs =
     (if length bs < 8 then Inl (MessageTooShort (length bs))
      else
        let messageType = getUint32 bs 0;
            payloadLength = getUint32 bs 4
        in
        if length bs < 8 + payloadLength
        then Inl (PayloadTruncated (8 + payloadLength) (length bs))
        else if payloadLength = 0 then Inl ZeroPayloadLength
        else
          let payloadBytes = bytes_slice bs 8 (8 + payloadLength);
              body =
                (if messageType = 1 then parse_json_bytes rt payloadBytes
                 else if messageType = 2 then parseBinaryPayloadWithMetadata rt payloadBytes
                 else if messageType = 3 then parseCompressedPayload rt payloadBytes
                 else if trim (text_decode rt payloadBytes) = []
                 then Inl (UnknownTypeEmptyPayload messageType)
                 else parse_json_bytes rt payloadBytes)
          in case body of
               Inl e \<Rightarrow> Inl (ProtocolParseFailed messageType e)
             | Inr v \<Rightarrow> Inr v)"

text \<open>Property read \<open>payload.k\<close>: a TypeError on \<open>null\<close>, \<open>undefined\<close> (here
  \<open>None\<close>) where the value has no such property.\<close>

fun get_prop :: "jsval \<Rightarrow> string \<Rightarrow> decode_error + jsval option" where
  "get_prop JNull k = Inl TypeError"
| "get_prop (JObj fs) k = Inr (map_of fs k)"
| "get_prop _ k = Inr None"

text \<open>
  \<open>createBinaryMessage\<close>. For type \<open>0x02\<close> the interface declares
  \<open>binaryData\<close> a \<open>Uint8Array\<close>; a truthy \<open>binaryData\<close> of another type is
  outside that declaration and is answered with \<open>TypeError\<close> here.
\<close>

definition createBinaryMessage :: "platform \<Rightarrow> nat \<Rightarrow> jsval \<Rightarrow> decode_error + bytes" where
  "createBinaryMessage rt messageType payload =
     (let frame = (\<lambda>payloadBytes.
            setUint32 messageType @ setUint32 (length payloadBytes) @ payloadBytes)
      in
      if messageType = 1
      then Inr (frame (text_encode rt (json_stringify rt payload)))
      else if messageType = 2
      then (case get_prop payload ''binaryData'' of
              Inl e \<Rightarrow> Inl e
            | Inr binaryData \<Rightarrow>
                if \<not> truthy_opt binaryData then Inl MissingMetadataOrBinaryData
                else (case get_prop payload ''metadata'' of
                        Inl e \<Rightarrow> Inl e
                      | Inr metadata \<Rightarrow>
                          (case (metadata, binaryData) of
                             (Some m, Some (JBytes b)) \<Rightarrow>
                               if \<not> truthy m then Inl MissingMetadataOrBinaryData
                               else
                                 let metadataBytes = text_encode rt (json_stringify rt m)
                                 in Inr (frame (setUint32 (length metadataBytes) @ metadataBytes @ b))
                           | (None, _) \<Rightarrow> Inl MissingMetadataOrBinaryData
                           | (Some m, _) \<Rightarrow>
                               if \<not> truthy m then Inl MissingMetadataOrBinaryData
                               else Inl TypeError)))
      else Inl (UnsupportedMessageType messageType))"

text \<open>A small runtime on which concrete frames and runs are evaluated. It reads and
  prints the texts of \<open>sample_frames\<close> only (the empty object, and four control frames
  written without quotation marks), and it encodes the two characters of \<open>{}\<close>.\<close>

definition sample_frames :: "(string \<times> jsval) list" where
  "sample_frames =
     [(''{}'', JObj []),
      (''{event:lattestream:connection_established,data:{socket_id:1.2}}'',
         JObj [(''event'', JStr ''lattestream:connection_established''),
               (''data'', JObj [(''socket_id'', JStr ''1.2'')])]),
      (''{event:lattestream:subscription_succeeded,channel:news}'',
         JObj [(''event'', JStr ''lattestream:subscription_succeeded''),
               (''channel'', JStr ''news'')]),
      (''{event:lattestream:pong}'',
         JObj [(''event'', JStr ''lattestream:pong'')]),
      (''{event:price,channel:news,data:{}}'',
         JObj [(''event'', JStr ''price''), (''channel'', JStr ''news''), (''data'', JObj [])])]"

definition sample_platform :: platform where
  "sample_platform =
     \<lparr> json_stringify = (\<lambda>v. case find (\<lambda>(s, v'). v' = v) sample_frames of
                                Some (s, _) \<Rightarrow> s | None \<Rightarrow> ''}''),
       json_parse = map_of sample_frames,
       text_encode = map (\<lambda>c. if c = CHR ''{'' then 123 else if c = CHR ''}'' then 125 else 63),
       text_decode = map (\<lambda>b. if b = 123 then CHR ''{'' else if b = 125 then CHR ''}'' else CHR ''?'') \<rparr>"

section \<open>Authorization strings (server/src/encryption.ts)\<close>

text \<open>
  \<open>createHmac('sha256', key).update(msg).digest('hex')\<close> is Node's; the helper takes
  it as the parameter \<open>hmac\<close> (key, then message, giving the hex digest).
  \<open>split_on\<close> is \<open>String.prototype.split\<close> with a one-character separator.
\<close>

fun split_on :: "char \<Rightarrow> string \<Rightarrow> string list" where
  "split_on c [] = [[]]"
| "split_on c (x # xs) =
     (if x = c then [] # split_on c xs
      else (case split_on c xs of
              w # ws \<Rightarrow> (x # w) # ws
            | [] \<Rightarrow> [[x]]))"

text \<open>The string that is signed: \<open>finalString\<close> of \<open>generateAuthString\<close>.
  An empty \<open>channelData\<close> is falsy and is left out like an absent one.\<close>

definition finalString :: "string \<Rightarrow> string \<Rightarrow> string option \<Rightarrow> string" where
  "finalString socketId channelName channelData =
     (let stringToSign = socketId @ '':'' @ channelName
      in case channelData of
           None \<Rightarrow> stringToSign
         | Some d \<Rightarrow> if d \<noteq> [] then stringToSign @ '':'' @ d else stringToSign)"

definition generateAuthString ::
  "(string \<Rightarrow> string \<Rightarrow> string) \<Rightarrow> string \<Rightarrow> string \<Rightarrow> string \<Rightarrow> string option \<Rightarrow> string" where
  "generateAuthString hmac masterKey socketId channelName channelData =
     (let signature = hmac masterKey (finalString socketId channelName channelData)
      in socketId @ '':'' @ signature)"

text \<open>\<open>charCodeAt\<close> as the 32-bit integer the bitwise operators work on.\<close>

definition charCodeAt :: "char \<Rightarrow> 32 word" where
  "charCodeAt c = of_nat (of_char c)"

text \<open>The loop of \<open>constantTimeCompare\<close>, with the accumulator \<open>result\<close>. The
  lengths are equal when it runs; a read past the end of \<open>b\<close> would give \<open>NaN\<close>,
  which the bitwise operators take as 0.\<close>

fun compare_loop :: "32 word \<Rightarrow> string \<Rightarrow> string \<Rightarrow> 32 word" where
  "compare_loop result [] b = result"
| "compare_loop result (x # a) [] = compare_loop (result OR (charCodeAt x XOR 0)) a []"
| "compare_loop result (x # a) (y # b) = compare_loop (result OR (charCodeAt x XOR charCodeAt y)) a b"

definition constantTimeCompare :: "string \<Rightarrow> string \<Rightarrow> bool" where
  "constantTimeCompare a b =
     (if length a \<noteq> length b then False
      else compare_loop 0 a b = 0)"

text \<open>\<open>verifyAuthString\<close>. The destructuring \<open>[socketId, signature] = split(':')\<close>
  reads the first two fields and ignores the rest; a missing field is \<open>undefined\<close>.
  Comparing against an \<open>undefined\<close> expected signature throws and the \<open>catch\<close>
  returns false.\<close>

definition verifyAuthString ::
  "(string \<Rightarrow> string \<Rightarrow> string) \<Rightarrow> string \<Rightarrow> string \<Rightarrow> string \<Rightarrow> string option \<Rightarrow> bool" where
  "verifyAuthString hmac masterKey authString channelName channelData =
     (case split_on CHR '':'' authString of
        socketId # signature # _ \<Rightarrow>
          if socketId = [] \<or> signature = [] then False
          else
            let expectedAuth = generateAuthString hmac masterKey socketId channelName channelData
            in (case split_on CHR '':'' expectedAuth of
                  _ # expectedSignature # _ \<Rightarrow> constantTimeCompare signature expectedSignature
                | _ \<Rightarrow> False)
      | _ \<Rightarrow> False)"

text \<open>A stand-in digest on which concrete auth strings are evaluated: four hex
  characters chosen by the parity of the input lengths.\<close>

definition sample_hmac :: "string \<Rightarrow> string \<Rightarrow> string" where
  "sample_hmac key msg = (if even (length key + length msg) then ''c0de'' else ''f00d'')"


section \<open>Numbers of the reconnection schedule\<close>

text \<open>
  A JavaScript number is an IEEE 754 binary64 value and every arithmetic operation returns
  the exact result rounded to the nearest such value, ties to the even significand. The
  finite values are modelled as the real numbers they denote. \<open>rne\<close> rounds a real to the
  nearest integer, ties to even; \<open>binade x\<close> is the exponent \<open>e\<close> with
  \<open>2 ^ e \<le> \<bar>x\<bar> < 2 ^ (e + 1)\<close>; \<open>ulp x\<close> is the spacing of the values with 53 significant
  bits in that binade; \<open>round64 x\<close> is the nearest value with 53 significant bits. The
  exponent is not bounded: the results are those of binary64 as long as no operation
  overflows to \<open>Infinity\<close> or falls below \<open>2 ^ - 1022\<close> in magnitude.
\<close>

definition rne :: "real \<Rightarrow> int" where
  "rne x =
     (let f = \<lfloor>x\<rfloor>; d = x - of_int f
      in if d < 1 / 2 then f
         else if 1 / 2 < d then f + 1
         else if even f then f else f + 1)"

definition binade :: "real \<Rightarrow> int" where
  "binade x = \<lfloor>log 2 \<bar>x\<bar>\<rfloor>"

definition ulp :: "real \<Rightarrow> real" where
  "ulp x = 2 powr (of_int (binade x) - 52)"

definition round64 :: "real \<Rightarrow> real" where
  "round64 x = (if x = 0 then 0 else of_int (rne (x / ulp x)) * ulp x)"
section \<open>The parsing entry point (binary-protocol.ts)\<close>

text \<open>\<open>parseBinaryMessage\<close> on the bytes of the buffer. The three outcomes of its
  outer \<open>try\<close> block that are errors are retried through
  \<open>parseLatteStreamBinaryProtocol\<close> by the \<open>catch\<close>; when that fails too, the first
  error is rethrown wrapped.\<close>

datatype parse_error =
    Decode decode_error
  | NotJsonOrBinary
  | EmptyOrInvalidUtf8
  | UnableToParse parse_error

definition startsWith :: "string \<Rightarrow> char \<Rightarrow> bool" where
  "startsWith s c = (case s of [] \<Rightarrow> False | x # _ \<Rightarrow> x = c)"

definition endsWith :: "string \<Rightarrow> char \<Rightarrow> bool" where
  "endsWith s c = (case rev s of [] \<Rightarrow> False | x # _ \<Rightarrow> x = c)"

definition parseBinaryMessage_try :: "platform \<Rightarrow> bytes \<Rightarrow> parse_error + jsval" where
  "parseBinaryMessage_try rt bs =
     (let trimmedText = trim (text_decode rt bs);
          looksJson = (startsWith trimmedText CHR ''{'' \<or> startsWith trimmedText CHR ''['');
          early = (if looksJson then json_parse rt trimmedText else None)
      in case early of
           Some parsedJson \<Rightarrow> Inr parsedJson
         | None \<Rightarrow>
             if 8 \<le> length bs \<and> 1 \<le> getUint32 bs 0 \<and> getUint32 bs 0 \<le> 3
                \<and> getUint32 bs 4 \<le> length bs - 8 \<and> 0 < getUint32 bs 4
             then (case parseLatteStreamBinaryProtocol rt bs of
                     Inl e \<Rightarrow> Inl (Decode e)
                   | Inr v \<Rightarrow> Inr v)
             else if trimmedText \<noteq> []
             then (case json_parse rt trimmedText of
                     Some v \<Rightarrow> Inr v
                   | None \<Rightarrow> Inl NotJsonOrBinary)
             else Inl EmptyOrInvalidUtf8)"

definition parseBinaryMessage :: "platform \<Rightarrow> bytes \<Rightarrow> parse_error + jsval" where
  "parseBinaryMessage rt bs =
     (case parseBinaryMessage_try rt bs of
        Inr v \<Rightarrow> Inr v
      | Inl error \<Rightarrow>
          (case parseLatteStreamBinaryProtocol rt bs of
             Inr v \<Rightarrow> Inr v
           | Inl binaryError \<Rightarrow> Inl (UnableToParse error)))"

section \<open>The client (client/src: channel.ts, connection.ts, client.ts, performance.ts)\<close>

subsection \<open>Options\<close>

text \<open>The options the modelled code reads; a number option that is absent or 0 falls
  to its default through \<open>||\<close>.\<close>

record LatteStreamOptions =
  maxReconnectionAttempts :: "real option"
  maxReconnectGapInSeconds :: "real option"
  reconnectBaseDelay :: "real option"
  reconnectBackoffMultiplier :: "real option"
  reconnectJitter :: "bool option"
  activityTimeout :: "real option"
  pongTimeout :: "real option"
  enableBatching :: "bool option"
  batchSize :: "real option"
  batchInterval :: "real option"
  authEndpoint :: "string option"

definition or_default :: "real option \<Rightarrow> real \<Rightarrow> real" where
  "or_default x d = (case x of None \<Rightarrow> d | Some v \<Rightarrow> if v = 0 then d else v)"

text \<open>What a client is constructed with: the key, the options and the runtime.
  \<open>math_pow\<close> is the runtime's \<open>Math.pow\<close>, whose result the language leaves to the
  implementation (an approximation of the power); the second argument is only ever the
  attempt counter.\<close>

record config =
  appKeyOrToken :: string
  options :: LatteStreamOptions
  runtime :: platform
  math_pow :: "real \<Rightarrow> nat \<Rightarrow> real"

definition startsWithStr :: "string \<Rightarrow> string \<Rightarrow> bool" where
  "startsWithStr s p = (take (length p) s = p)"

definition isPrivateToken :: "config \<Rightarrow> bool" where
  "isPrivateToken cfg = startsWithStr (appKeyOrToken cfg) ''lspc_''"

definition isPublicKey :: "config \<Rightarrow> bool" where
  "isPublicKey cfg = startsWithStr (appKeyOrToken cfg) ''lspk_''"

definition isToken :: "config \<Rightarrow> bool" where
  "isToken cfg = (startsWithStr (appKeyOrToken cfg) ''lspc_'' \<or> startsWithStr (appKeyOrToken cfg) ''lspk_'')"

text \<open>The constructor creates the authorizer only for a truthy \<open>authEndpoint\<close>.\<close>

definition has_authorizer :: "config \<Rightarrow> bool" where
  "has_authorizer cfg = (case authEndpoint (options cfg) of None \<Rightarrow> False | Some e \<Rightarrow> e \<noteq> [])"

subsection \<open>State\<close>

datatype ConnectionState = Disconnected | Connecting | Connected | Unavailable | Failed

datatype ChannelType = PublicChannel | PrivateChannel | PresenceChannel

definition getChannelType :: "string \<Rightarrow> ChannelType" where
  "getChannelType channelName =
     (if startsWithStr channelName ''presence-'' then PresenceChannel
      else if startsWithStr channelName ''private-'' then PrivateChannel
      else PublicChannel)"

record PresenceMember =
  member_id :: string
  member_info :: "jsval option"

text \<open>What a channel hands to its event emitter: the parsed data, a member object (as
  it is when emitted), or the error of a failed authorization.\<close>

datatype payload = Value "jsval option" | Member PresenceMember | AuthorizationError

text \<open>A channel object. \<open>chan_type\<close> is its class; \<open>members\<close> holds references into
  the store of member objects; \<open>emitted\<close> lists what went to \<open>eventEmitter.emit\<close>.\<close>

record Channel =
  name :: string
  chan_type :: ChannelType
  subscribed :: bool
  members :: "(string \<times> nat) list"
  myId :: "jsval option"
  emitted :: "(string \<times> payload) list"

datatype timer_kind = ReconnectTimer | ActivityTimer | PongTimer | DebounceTimer | FlushTimer

datatype readyState = CONNECTING | OPEN | CLOSING | CLOSED

record socket =
  ready :: readyState
  sent :: "string list"

text \<open>
  The whole client and what it touches. First the fields of \<open>Connection\<close> (with the
  \<open>timeout\<close> variable of the closure \<open>debounce\<close> returns, and the queue and timer of
  its \<open>MessageQueue\<close>), then the channel map of \<open>LatteStream\<close>, then the stores:
  channel objects, member objects and the static \<open>memberPool\<close>, the WebSocket objects
  the client created, the timeouts that are pending (identifier, callback, delay in ms),
  and the promises that are pending: discovery calls and channel authorizations (channel
  and socket id).
\<close>

record world =
  ws :: "nat option"
  state :: ConnectionState
  reconnectAttempts :: nat
  reconnectTimer :: "nat option"
  activityTimer :: "nat option"
  pongTimer :: "nat option"
  socketId :: "jsval option"
  discoveryToken :: "string option"
  debounceTimeout :: "nat option"
  queue :: "jsval list"
  flushTimer :: "nat option"
  channels :: "(string \<times> nat) list"
  chanHeap :: "Channel list"
  memberHeap :: "PresenceMember list"
  memberPool :: "nat list"
  sockets :: "socket list"
  timers :: "(nat \<times> timer_kind \<times> real) list"
  nextTimer :: nat
  discoveryPending :: nat
  authPending :: "(nat \<times> jsval) list"

text \<open>The state after the constructors: no socket, no channel, ten pooled member
  objects. Timer identifiers start at 1, so that each is truthy.\<close>

definition init_world :: world where
  "init_world =
     \<lparr> ws = None, state = Disconnected, reconnectAttempts = 0, reconnectTimer = None,
       activityTimer = None, pongTimer = None, socketId = None, discoveryToken = None,
       debounceTimeout = None, queue = [], flushTimer = None, channels = [], chanHeap = [],
       memberHeap = replicate 10 \<lparr> member_id = [], member_info = None \<rparr>,
       memberPool = [0 ..< 10], sockets = [], timers = [], nextTimer = 1,
       discoveryPending = 0, authPending = [] \<rparr>"

subsection \<open>Timeouts and the send path\<close>

definition setTimeout :: "timer_kind \<Rightarrow> real \<Rightarrow> world \<Rightarrow> nat \<times> world" where
  "setTimeout k delay w =
     (nextTimer w, w\<lparr> timers := timers w @ [(nextTimer w, k, delay)], nextTimer := nextTimer w + 1 \<rparr>)"

definition clearTimeout :: "nat \<Rightarrow> world \<Rightarrow> world" where
  "clearTimeout t w = w\<lparr> timers := filter (\<lambda>(i, _). i \<noteq> t) (timers w) \<rparr>"

text \<open>\<open>sendRaw\<close>: the serialized frame goes to the current socket when it is open.\<close>

definition sendRaw :: "config \<Rightarrow> jsval \<Rightarrow> world \<Rightarrow> bool \<times> world" where
  "sendRaw cfg data w =
     (case ws w of
        None \<Rightarrow> (False, w)
      | Some k \<Rightarrow>
          if k < length (sockets w) \<and> ready (sockets w ! k) = OPEN
          then (True, w\<lparr> sockets := (sockets w)[k := (sockets w ! k)
                   \<lparr> sent := sent (sockets w ! k) @ [json_stringify (runtime cfg) data] \<rparr>] \<rparr>)
          else (False, w))"

text \<open>\<open>MessageQueue.flush\<close>, \<open>MessageQueue.enqueue\<close> and \<open>MessageQueue.clear\<close>.\<close>

definition flush :: "config \<Rightarrow> world \<Rightarrow> world" where
  "flush cfg w =
     (let w1 = (case flushTimer w of
                  None \<Rightarrow> w
                | Some t \<Rightarrow> (clearTimeout t w)\<lparr> flushTimer := None \<rparr>)
      in case queue w1 of
           [] \<Rightarrow> w1
         | [m] \<Rightarrow> snd (sendRaw cfg m (w1\<lparr> queue := [] \<rparr>))
         | messages \<Rightarrow>
             snd (sendRaw cfg
                   (JObj [(''event'', JStr ''lattestream:batch''),
                          (''data'', JObj [(''messages'', JArr messages)])])
                   (w1\<lparr> queue := [] \<rparr>)))"

definition enqueue :: "config \<Rightarrow> jsval \<Rightarrow> world \<Rightarrow> world" where
  "enqueue cfg message w =
     (let w1 = w\<lparr> queue := queue w @ [message] \<rparr>
      in if or_default (batchSize (options cfg)) 10 \<le> real (length (queue w1))
         then flush cfg w1
         else if flushTimer w1 = None
         then (case setTimeout FlushTimer (or_default (batchInterval (options cfg)) 16) w1 of
                 (t, w2) \<Rightarrow> w2\<lparr> flushTimer := Some t \<rparr>)
         else w1)"

definition queue_clear :: "world \<Rightarrow> world" where
  "queue_clear w =
     (case flushTimer w of
        None \<Rightarrow> w\<lparr> queue := [] \<rparr>
      | Some t \<Rightarrow> (clearTimeout t (w\<lparr> queue := [] \<rparr>))\<lparr> flushTimer := None \<rparr>)"

text \<open>\<open>Connection.send\<close>, which \<open>LatteStream.send\<close> passes its argument to.\<close>

definition send :: "config \<Rightarrow> jsval \<Rightarrow> world \<Rightarrow> bool \<times> world" where
  "send cfg data w =
     (if state w \<noteq> Connected then (False, w)
      else if enableBatching (options cfg) \<noteq> Some False then (True, enqueue cfg data w)
      else sendRaw cfg data w)"

subsection \<open>Channels (channel.ts)\<close>

definition upd_chan :: "nat \<Rightarrow> (Channel \<Rightarrow> Channel) \<Rightarrow> world \<Rightarrow> world" where
  "upd_chan r f w = w\<lparr> chanHeap := (chanHeap w)[r := f (chanHeap w ! r)] \<rparr>"

text \<open>Property read on a value known not to be \<open>null\<close> or \<open>undefined\<close>; only
  objects carry the properties the client reads.\<close>

definition js_field :: "jsval option \<Rightarrow> string \<Rightarrow> jsval option" where
  "js_field v k = (case v of Some (JObj fs) \<Rightarrow> map_of fs k | _ \<Rightarrow> None)"

definition is_nullish :: "jsval option \<Rightarrow> bool" where
  "is_nullish v = (v = None \<or> v = Some JNull)"

definition parseEventData :: "config \<Rightarrow> jsval option \<Rightarrow> jsval option" where
  "parseEventData cfg data =
     (case data of
        Some (JStr s) \<Rightarrow>
          (let trimmed = trim s
           in if (startsWith trimmed CHR ''{'' \<and> endsWith trimmed CHR ''}'')
                 \<or> (startsWith trimmed CHR ''['' \<and> endsWith trimmed CHR '']'')
              then (case json_parse (runtime cfg) s of
                      Some parsed \<Rightarrow> Some parsed
                    | None \<Rightarrow> data)
              else data)
      | _ \<Rightarrow> data)"

definition emit :: "string \<Rightarrow> payload \<Rightarrow> Channel \<Rightarrow> Channel" where
  "emit eventName p ch = ch\<lparr> emitted := emitted ch @ [(eventName, p)] \<rparr>"

definition handleEvent :: "config \<Rightarrow> string \<Rightarrow> jsval option \<Rightarrow> Channel \<Rightarrow> Channel" where
  "handleEvent cfg eventName data ch = emit eventName (Value (parseEventData cfg data)) ch"

text \<open>\<open>Channel.trigger\<close>: the only test is \<open>subscribed\<close>; the result is that of
  \<open>send\<close>. A \<open>data\<close> that is \<open>undefined\<close> leaves no property in the frame.\<close>

definition trigger :: "config \<Rightarrow> nat \<Rightarrow> string \<Rightarrow> jsval option \<Rightarrow> world \<Rightarrow> bool \<times> world" where
  "trigger cfg r eventName data w =
     (let this = chanHeap w ! r
      in if \<not> subscribed this then (False, w)
         else send cfg
                (JObj ([(''event'', JStr eventName)]
                       @ (case data of None \<Rightarrow> [] | Some d \<Rightarrow> [(''data'', d)])
                       @ [(''channel'', JStr (name this))]))
                w)"

text \<open>\<open>Channel.subscribe\<close> (public channels) sends at once. The override of
  \<open>PrivateChannel\<close> and \<open>PresenceChannel\<close> first awaits the authorization: the call
  leaves a pending authorization, and \<open>authorize_done\<close> is the rest of the method, run
  when the promise settles (\<open>None\<close>: it was rejected).\<close>

definition channel_subscribe :: "config \<Rightarrow> nat \<Rightarrow> world \<Rightarrow> world" where
  "channel_subscribe cfg r w =
     (let this = chanHeap w ! r
      in if subscribed this then w
         else snd (send cfg
                    (JObj [(''event'', JStr ''lattestream:subscribe''),
                           (''data'', JObj [(''channel'', JStr (name this))])])
                    w))"

definition private_subscribe :: "config \<Rightarrow> nat \<Rightarrow> jsval \<Rightarrow> world \<Rightarrow> world" where
  "private_subscribe cfg r sid w =
     (let this = chanHeap w ! r
      in if subscribed this then w
         else w\<lparr> authPending := authPending w @ [(r, sid)] \<rparr>)"

definition handleSubscriptionError :: "config \<Rightarrow> payload \<Rightarrow> Channel \<Rightarrow> Channel" where
  "handleSubscriptionError cfg error ch =
     (case error of
        Value data \<Rightarrow> handleEvent cfg ''lattestream:subscription_error'' data ch
      | _ \<Rightarrow> emit ''lattestream:subscription_error'' error ch)"

definition authorize_done :: "config \<Rightarrow> nat \<Rightarrow> jsval option \<Rightarrow> world \<Rightarrow> world" where
  "authorize_done cfg i result w =
     (if length (authPending w) \<le> i then w
      else
        let r = fst (authPending w ! i);
            w1 = w\<lparr> authPending := take i (authPending w) @ drop (Suc i) (authPending w) \<rparr>;
            this = chanHeap w1 ! r
        in case result of
             Some authData \<Rightarrow>
               snd (send cfg
                     (JObj [(''event'', JStr ''lattestream:subscribe''),
                            (''data'', JObj [(''channel'', JStr (name this)), (''auth'', authData)])])
                     w1)
           | None \<Rightarrow> upd_chan r (handleSubscriptionError cfg AuthorizationError) w1)"

definition channel_unsubscribe :: "config \<Rightarrow> nat \<Rightarrow> world \<Rightarrow> world" where
  "channel_unsubscribe cfg r w =
     (let this = chanHeap w ! r
      in if \<not> subscribed this then w
         else upd_chan r (\<lambda>ch. ch\<lparr> subscribed := False \<rparr>)
                (snd (send cfg
                       (JObj [(''event'', JStr ''lattestream:unsubscribe''),
                              (''data'', JObj [(''channel'', JStr (name this))])])
                       w)))"

definition handleSubscriptionSucceeded :: "config \<Rightarrow> jsval option \<Rightarrow> Channel \<Rightarrow> Channel" where
  "handleSubscriptionSucceeded cfg data ch =
     handleEvent cfg ''lattestream:subscription_succeeded'' data (ch\<lparr> subscribed := True \<rparr>)"

subsection \<open>Presence members and the object pool (channel.ts, performance.ts)\<close>

text \<open>\<open>Map.set\<close> and \<open>Map.delete\<close> on a map kept in insertion order.\<close>

fun map_set :: "'k \<Rightarrow> 'v \<Rightarrow> ('k \<times> 'v) list \<Rightarrow> ('k \<times> 'v) list" where
  "map_set k v [] = [(k, v)]"
| "map_set k v ((k', v') # m) = (if k' = k then (k, v) # m else (k', v') # map_set k v m)"

definition map_delete :: "'k \<Rightarrow> ('k \<times> 'v) list \<Rightarrow> ('k \<times> 'v) list" where
  "map_delete k m = filter (\<lambda>(k', _). k' \<noteq> k) m"

definition blank_member :: PresenceMember where
  "blank_member = \<lparr> member_id = [], member_info = None \<rparr>"

text \<open>\<open>ObjectPool.acquire\<close> pops the last pooled object or makes one;
  \<open>ObjectPool.release\<close> resets the object and keeps it while the pool has fewer than 50.\<close>

definition acquire :: "world \<Rightarrow> nat \<times> world" where
  "acquire w =
     (case rev (memberPool w) of
        [] \<Rightarrow> (length (memberHeap w), w\<lparr> memberHeap := memberHeap w @ [blank_member] \<rparr>)
      | obj # _ \<Rightarrow> (obj, w\<lparr> memberPool := butlast (memberPool w) \<rparr>))"

definition release :: "nat \<Rightarrow> world \<Rightarrow> world" where
  "release obj w =
     (let w1 = w\<lparr> memberHeap := (memberHeap w)[obj := blank_member] \<rparr>
      in if length (memberPool w1) < 50 then w1\<lparr> memberPool := memberPool w1 @ [obj] \<rparr> else w1)"

definition handleMemberAdded :: "config \<Rightarrow> nat \<Rightarrow> PresenceMember \<Rightarrow> world \<Rightarrow> world" where
  "handleMemberAdded cfg r member w =
     (case acquire w of
        (pooledMember, w1) \<Rightarrow>
          let w2 = w1\<lparr> memberHeap := (memberHeap w1)[pooledMember :=
                       \<lparr> member_id = member_id member, member_info = member_info member \<rparr>] \<rparr>;
              w3 = upd_chan r (\<lambda>ch. ch\<lparr> members := map_set (member_id member) pooledMember (members ch) \<rparr>) w2
          in upd_chan r (emit ''lattestream:member_added'' (Member (memberHeap w3 ! pooledMember))) w3)"

definition handleMemberRemoved :: "config \<Rightarrow> nat \<Rightarrow> PresenceMember \<Rightarrow> world \<Rightarrow> world" where
  "handleMemberRemoved cfg r member w =
     (case map_of (members (chanHeap w ! r)) (member_id member) of
        None \<Rightarrow> w
      | Some existingMember \<Rightarrow>
          let w1 = upd_chan r (\<lambda>ch. ch\<lparr> members := map_delete (member_id member) (members ch) \<rparr>) w;
              w2 = upd_chan r (emit ''lattestream:member_removed'' (Member (memberHeap w1 ! existingMember))) w1
          in release existingMember w2)"

text \<open>The entries of \<open>presence.hash\<close> become fresh member objects, in order.\<close>

fun hydrate :: "nat \<Rightarrow> (string \<times> jsval) list \<Rightarrow> world \<Rightarrow> world" where
  "hydrate r [] w = w"
| "hydrate r ((i, info) # es) w =
     hydrate r es
       (upd_chan r (\<lambda>ch. ch\<lparr> members := map_set i (length (memberHeap w)) (members ch) \<rparr>)
          (w\<lparr> memberHeap := memberHeap w @ [\<lparr> member_id = i, member_info = Some info \<rparr>] \<rparr>))"

text \<open>\<open>PresenceChannel.handleSubscriptionSucceeded\<close>. The second component is false
  when \<open>Object.entries\<close> threw (a \<open>presence\<close> without \<open>hash\<close>): the member map is
  already cleared then and the rest of the method is skipped.\<close>

definition presence_handleSubscriptionSucceeded ::
  "config \<Rightarrow> nat \<Rightarrow> jsval option \<Rightarrow> world \<Rightarrow> world \<times> bool" where
  "presence_handleSubscriptionSucceeded cfg r data w =
     (let parsedData = parseEventData cfg data;
          presence = (if truthy_opt parsedData then js_field parsedData ''presence'' else None)
      in if truthy_opt presence
         then
           let w1 = upd_chan r (\<lambda>ch. ch\<lparr> members := [] \<rparr>) w
           in if is_nullish (js_field presence ''hash'') then (w1, False)
              else
                let w2 = hydrate r (spread_fields (the (js_field presence ''hash''))) w1;
                    me = js_field presence ''me'';
                    w3 = (if truthy_opt me then upd_chan r (\<lambda>ch. ch\<lparr> myId := js_field me ''id'' \<rparr>) w2
                          else w2)
                in (upd_chan r (handleSubscriptionSucceeded cfg parsedData) w3, True)
         else (upd_chan r (handleSubscriptionSucceeded cfg parsedData) w, True))"

subsection \<open>Connection (connection.ts) and the registry (client.ts)\<close>

definition clearTimers :: "world \<Rightarrow> world" where
  "clearTimers w =
     (let w1 = (case reconnectTimer w of
                  None \<Rightarrow> w | Some t \<Rightarrow> (clearTimeout t w)\<lparr> reconnectTimer := None \<rparr>);
          w2 = (case activityTimer w1 of
                  None \<Rightarrow> w1 | Some t \<Rightarrow> (clearTimeout t w1)\<lparr> activityTimer := None \<rparr>)
      in case pongTimer w2 of
           None \<Rightarrow> w2 | Some t \<Rightarrow> (clearTimeout t w2)\<lparr> pongTimer := None \<rparr>)"

text \<open>\<open>LatteStream.subscribeChannel\<close>, up to its first \<open>await\<close>.\<close>

definition subscribeChannel :: "config \<Rightarrow> nat \<Rightarrow> world \<Rightarrow> world" where
  "subscribeChannel cfg r w =
     (if state w \<noteq> Connected \<or> \<not> truthy_opt (socketId w) then w
      else if chan_type (chanHeap w ! r) = PrivateChannel \<or> chan_type (chanHeap w ! r) = PresenceChannel
      then private_subscribe cfg r (the (socketId w)) w
      else channel_subscribe cfg r w)"

definition subscribeAllChannels :: "config \<Rightarrow> world \<Rightarrow> world" where
  "subscribeAllChannels cfg w = fold (\<lambda>(n, r). subscribeChannel cfg r) (channels w) w"

definition resetChannelStates :: "world \<Rightarrow> world" where
  "resetChannelStates w =
     fold (\<lambda>(n, r) w'. if subscribed (chanHeap w' ! r)
                        then upd_chan r (\<lambda>ch. ch\<lparr> subscribed := False \<rparr>) w' else w')
       (channels w) w"

definition handleConnectionStateChange :: "config \<Rightarrow> ConnectionState \<Rightarrow> ConnectionState \<Rightarrow> world \<Rightarrow> world" where
  "handleConnectionStateChange cfg previous current w =
     (if current = Connected then subscribeAllChannels cfg w
      else if current = Disconnected \<or> current = Failed then resetChannelStates w
      else w)"

definition setState :: "config \<Rightarrow> ConnectionState \<Rightarrow> world \<Rightarrow> world" where
  "setState cfg newState w =
     (let previous = state w;
          w1 = w\<lparr> state := newState \<rparr>
      in if previous \<noteq> newState then handleConnectionStateChange cfg previous newState w1 else w1)"

text \<open>The function \<open>debounce\<close> returns, for \<open>attemptReconnect\<close> and 100 ms.\<close>

definition debouncedReconnect :: "world \<Rightarrow> world" where
  "debouncedReconnect w =
     (let w1 = (case debounceTimeout w of None \<Rightarrow> w | Some t \<Rightarrow> clearTimeout t w)
      in case setTimeout DebounceTimer 100 w1 of
           (t, w2) \<Rightarrow> w2\<lparr> debounceTimeout := Some t \<rparr>)"

definition startActivityTimer :: "config \<Rightarrow> world \<Rightarrow> world" where
  "startActivityTimer cfg w =
     (case setTimeout ActivityTimer (or_default (activityTimeout (options cfg)) 120000) w of
        (t, w1) \<Rightarrow> w1\<lparr> activityTimer := Some t \<rparr>)"

definition resetActivityTimer :: "config \<Rightarrow> world \<Rightarrow> world" where
  "resetActivityTimer cfg w =
     startActivityTimer cfg (case activityTimer w of None \<Rightarrow> w | Some t \<Rightarrow> clearTimeout t w)"

definition startPongTimer :: "config \<Rightarrow> world \<Rightarrow> world" where
  "startPongTimer cfg w =
     (case setTimeout PongTimer (or_default (pongTimeout (options cfg)) 30000) w of
        (t, w1) \<Rightarrow> w1\<lparr> pongTimer := Some t \<rparr>)"

definition sendPing :: "config \<Rightarrow> world \<Rightarrow> world" where
  "sendPing cfg w =
     (if state w = Connected
      then startPongTimer cfg
             (snd (send cfg (JObj [(''event'', JStr ''lattestream:ping''), (''data'', JObj [])]) w))
      else w)"

definition handlePong :: "world \<Rightarrow> world" where
  "handlePong w =
     (case pongTimer w of None \<Rightarrow> w | Some t \<Rightarrow> (clearTimeout t w)\<lparr> pongTimer := None \<rparr>)"

definition handleConnectionError :: "config \<Rightarrow> world \<Rightarrow> world" where
  "handleConnectionError cfg w = debouncedReconnect (setState cfg Failed w)"

text \<open>
  \<open>connect\<close> stops at \<open>await this.performDiscovery()\<close> for a public key; the rest of
  the method, \<open>connect_resume\<close>, runs when the discovery promise settles (\<open>None\<close>: it
  was rejected), or at once for any other key.
\<close>

definition connect_open :: "config \<Rightarrow> world \<Rightarrow> world" where
  "connect_open cfg w =
     (if \<not> isToken cfg then handleConnectionError cfg w
      else startActivityTimer cfg
             (w\<lparr> sockets := sockets w @ [\<lparr> ready = CONNECTING, sent = [] \<rparr>],
                 ws := Some (length (sockets w)) \<rparr>))"

definition connect :: "config \<Rightarrow> world \<Rightarrow> world" where
  "connect cfg w =
     (if state w = Connected \<or> state w = Connecting then w
      else
        let w1 = clearTimers (setState cfg Connecting w)
        in if isPublicKey cfg then w1\<lparr> discoveryPending := discoveryPending w1 + 1 \<rparr>
           else connect_open cfg w1)"

definition connect_resume :: "config \<Rightarrow> string option \<Rightarrow> world \<Rightarrow> world" where
  "connect_resume cfg result w =
     (if discoveryPending w = 0 then w
      else
        let w1 = w\<lparr> discoveryPending := discoveryPending w - 1 \<rparr>
        in case result of
             None \<Rightarrow> handleConnectionError cfg w1
           | Some token \<Rightarrow>
               let w2 = w1\<lparr> discoveryToken := Some token \<rparr>
               in if token = [] then handleConnectionError cfg w2 else connect_open cfg w2)"

text \<open>\<open>ws.close()\<close> on the current socket, then \<open>this.ws = null\<close>.\<close>

definition close_ws :: "world \<Rightarrow> world" where
  "close_ws w =
     (case ws w of
        None \<Rightarrow> w
      | Some k \<Rightarrow>
          (if k < length (sockets w) \<and> (ready (sockets w ! k) = CONNECTING \<or> ready (sockets w ! k) = OPEN)
           then w\<lparr> sockets := (sockets w)[k := (sockets w ! k)\<lparr> ready := CLOSING \<rparr>] \<rparr>
           else w)\<lparr> ws := None \<rparr>)"

text \<open>\<open>Connection.disconnect\<close>.\<close>

definition connection_disconnect :: "config \<Rightarrow> world \<Rightarrow> world" where
  "connection_disconnect cfg w =
     setState cfg Disconnected (close_ws ((clearTimers w)\<lparr> reconnectAttempts := 0 \<rparr>))"

definition forceReconnect :: "config \<Rightarrow> world \<Rightarrow> world" where
  "forceReconnect cfg w =
     connect cfg (setState cfg Connecting (close_ws ((clearTimers w)\<lparr> reconnectAttempts := 0 \<rparr>)))"

definition resetReconnectionState :: "world \<Rightarrow> world" where
  "resetReconnectionState w = (if reconnectAttempts w = 0 then w else w\<lparr> reconnectAttempts := 0 \<rparr>)"

definition resetBackoffOnSuccess :: "world \<Rightarrow> world" where
  "resetBackoffOnSuccess w = resetReconnectionState w"

definition handleDisconnection :: "config \<Rightarrow> world \<Rightarrow> world" where
  "handleDisconnection cfg w =
     (let w1 = queue_clear (clearTimers (w\<lparr> ws := None \<rparr>))
      in if state w1 = Connected \<or> state w1 = Connecting
         then debouncedReconnect (setState cfg Disconnected w1)
         else if state w1 = Unavailable then debouncedReconnect w1
         else w1)"

text \<open>\<open>attemptReconnect\<close>; \<open>rnd\<close> is the value \<open>Math.random()\<close> returns. The product, the
  cap \<open>maxGap * 1000\<close>, the jitter range, the jitter and the sum are each one
  floating-point operation, so each is rounded; \<open>Math.min\<close> and the comparison are exact.\<close>

definition attemptReconnect :: "config \<Rightarrow> real \<Rightarrow> world \<Rightarrow> world" where
  "attemptReconnect cfg rnd w =
     (let maxAttempts = or_default (maxReconnectionAttempts (options cfg)) 6;
          maxGap = or_default (maxReconnectGapInSeconds (options cfg)) 30;
          baseDelay = or_default (reconnectBaseDelay (options cfg)) 1000;
          backoffMultiplier = or_default (reconnectBackoffMultiplier (options cfg)) 2;
          enableJitter = (reconnectJitter (options cfg) \<noteq> Some False)
      in if maxAttempts \<le> real (reconnectAttempts w) then setState cfg Failed w
         else
           let exponentialDelay =
                 round64 (math_pow cfg backoffMultiplier (reconnectAttempts w) * baseDelay);
               delay0 = min exponentialDelay (round64 (maxGap * 1000));
               delay = (if enableJitter
                        then let jitterRange = round64 (delay0 * 0.25);
                                 jitter = round64 (rnd * jitterRange)
                             in round64 (delay0 + jitter)
                        else delay0);
               w1 = w\<lparr> reconnectAttempts := reconnectAttempts w + 1 \<rparr>;
               w2 = (if state w1 \<noteq> Connecting then setState cfg Unavailable w1 else w1)
           in case setTimeout ReconnectTimer delay w2 of
                (t, w3) \<Rightarrow> w3\<lparr> reconnectTimer := Some t \<rparr>)"

text \<open>What a WebSocket delivers in \<open>event.data\<close>.\<close>

datatype ws_data = Text string | Binary bytes | OtherData

text \<open>The first half of \<open>Connection.handleMessage\<close>: the parsed message, or
  \<open>None\<close> where parsing throws or the data is neither binary nor a string.\<close>

definition parse_frame :: "config \<Rightarrow> ws_data \<Rightarrow> jsval option" where
  "parse_frame cfg d =
     (case d of
        Binary bs \<Rightarrow> (case parseBinaryMessage (runtime cfg) bs of Inl _ \<Rightarrow> None | Inr v \<Rightarrow> Some v)
      | Text s \<Rightarrow> json_parse (runtime cfg) s
      | OtherData \<Rightarrow> None)"

text \<open>\<open>Connection.handleMessage\<close>: the message to forward, or \<open>None\<close> for
  \<open>null\<close>. Whatever throws inside its \<open>try\<close> (a parse error, a property read on
  \<open>null\<close>) ends in \<open>return null\<close>.\<close>

definition handleMessage :: "config \<Rightarrow> ws_data \<Rightarrow> world \<Rightarrow> jsval option \<times> world" where
  "handleMessage cfg d w =
     (case parse_frame cfg d of
        None \<Rightarrow> (None, w)
      | Some message \<Rightarrow>
          if message = JNull then (None, w)
          else if js_field (Some message) ''event'' = Some (JStr ''lattestream:connection_established'')
          then
            (if is_nullish (js_field (Some message) ''data'') then (None, w)
             else
               let w1 = w\<lparr> socketId := js_field (js_field (Some message) ''data'') ''socket_id'' \<rparr>
               in (None, if isToken cfg \<and> state w1 \<noteq> Connected then setState cfg Connected w1 else w1))
          else if js_field (Some message) ''event'' = Some (JStr ''lattestream:pong'')
          then (None, handlePong w)
          else (Some message, w))"

text \<open>The member a \<open>member_added\<close> or \<open>member_removed\<close> frame carries, read as the
  declared \<open>PresenceMember\<close>: an object whose \<open>id\<close> is a string.\<close>

definition as_member :: "jsval option \<Rightarrow> PresenceMember option" where
  "as_member data =
     (case js_field data ''id'' of
        Some (JStr i) \<Rightarrow> Some \<lparr> member_id = i, member_info = js_field data ''info'' \<rparr>
      | _ \<Rightarrow> None)"

definition is_event :: "jsval option \<Rightarrow> string \<Rightarrow> bool" where
  "is_event ev n =
     (ev = Some (JStr (''lattestream:'' @ n)) \<or> ev = Some (JStr (''lattestream_internal:'' @ n)))"

text \<open>
  \<open>LatteStream.handleChannelEvent\<close> on the normalized message. The second component
  is false when the call threw. A member frame whose data is \<open>null\<close> or
  \<open>undefined\<close> throws on \<open>member.id\<close> (for an added member after
  \<open>acquire\<close>); one whose data is of another shape than \<open>PresenceMember\<close> is outside
  the declared type and is answered in the same way.
\<close>

definition handleChannelEvent ::
  "config \<Rightarrow> jsval option \<Rightarrow> jsval option \<Rightarrow> jsval option \<Rightarrow> world \<Rightarrow> world \<times> bool" where
  "handleChannelEvent cfg ev data chan w =
     (case (case chan of Some (JStr n) \<Rightarrow> map_of (channels w) n | _ \<Rightarrow> None) of
        None \<Rightarrow> (w, True)
      | Some r \<Rightarrow>
          if is_event ev ''subscription_succeeded''
          then
            (case (if chan_type (chanHeap w ! r) = PresenceChannel
                   then presence_handleSubscriptionSucceeded cfg r data w
                   else (upd_chan r (handleSubscriptionSucceeded cfg data) w, True)) of
               (w1, ok) \<Rightarrow> if ok then (resetBackoffOnSuccess w1, True) else (w1, False))
          else if is_event ev ''subscription_error''
          then (upd_chan r (handleSubscriptionError cfg (Value data)) w, True)
          else if is_event ev ''member_added'' \<and> chan_type (chanHeap w ! r) = PresenceChannel
          then (case as_member data of
                  Some member \<Rightarrow> (handleMemberAdded cfg r member w, True)
                | None \<Rightarrow> (snd (acquire w), False))
          else if is_event ev ''member_removed'' \<and> chan_type (chanHeap w ! r) = PresenceChannel
          then (case as_member data of
                  Some member \<Rightarrow> (handleMemberRemoved cfg r member w, True)
                | None \<Rightarrow> (w, False))
          else (case ev of
                  Some (JStr eventName) \<Rightarrow> (upd_chan r (handleEvent cfg eventName data) w, True)
                | _ \<Rightarrow> (w, True)))"

text \<open>The channel of a message: \<open>message.channel || (message.data &&
  message.data.channel)\<close>.\<close>

definition message_channel :: "jsval \<Rightarrow> jsval option" where
  "message_channel message =
     (let top = js_field (Some message) ''channel'';
          data = js_field (Some message) ''data''
      in if truthy_opt top then top
         else if truthy_opt data then js_field data ''channel'' else data)"

text \<open>\<open>LatteStream.handleParsedMessage\<close>: a message with a channel, at the top level
  or inside its data, goes to \<open>handleChannelEvent\<close>; any other goes to the global
  listeners, which are not part of the state.\<close>

definition handleParsedMessage :: "config \<Rightarrow> jsval \<Rightarrow> world \<Rightarrow> world \<times> bool" where
  "handleParsedMessage cfg message w =
     (let chan = message_channel message
      in if truthy_opt chan
         then handleChannelEvent cfg (js_field (Some message) ''event'')
                (js_field (Some message) ''data'') chan w
         else (w, True))"

text \<open>The \<open>onmessage\<close> handler of \<open>bindEvents\<close>: a throw in the callback skips
  \<open>resetActivityTimer\<close>.\<close>

definition onmessage :: "config \<Rightarrow> ws_data \<Rightarrow> world \<Rightarrow> world" where
  "onmessage cfg d w =
     (case handleMessage cfg d w of
        (parsedMessage, w1) \<Rightarrow>
          (case (if truthy_opt parsedMessage then handleParsedMessage cfg (the parsedMessage) w1
                 else (w1, True)) of
             (w2, ok) \<Rightarrow> if ok then resetActivityTimer cfg w2 else w2))"

definition onopen :: "config \<Rightarrow> world \<Rightarrow> world" where
  "onopen cfg w =
     (if isToken cfg
      then snd (sendRaw cfg (JObj [(''api_key'', JStr (appKeyOrToken cfg))]) w)
      else setState cfg Connected w)"

datatype client_error = PrivateNeedsAuthEndpoint | PresenceNeedsAuthEndpoint

text \<open>\<open>LatteStream.subscribe\<close>: the reference of the channel object it returns, or
  the error it throws.\<close>

definition new_channel :: "string \<Rightarrow> ChannelType \<Rightarrow> Channel" where
  "new_channel channelName t =
     \<lparr> name = channelName, chan_type = t, subscribed = False, members = [], myId = None,
       emitted = [] \<rparr>"

definition subscribe :: "config \<Rightarrow> string \<Rightarrow> world \<Rightarrow> client_error + nat \<times> world" where
  "subscribe cfg channelName w =
     (case map_of (channels w) channelName of
        Some r \<Rightarrow> Inr (r, w)
      | None \<Rightarrow>
          let channelType = getChannelType channelName
          in if channelType = PrivateChannel \<and> \<not> has_authorizer cfg then Inl PrivateNeedsAuthEndpoint
             else if channelType = PresenceChannel \<and> \<not> has_authorizer cfg then Inl PresenceNeedsAuthEndpoint
             else
               let r = length (chanHeap w);
                   w1 = w\<lparr> chanHeap := chanHeap w @ [new_channel channelName channelType],
                          channels := map_set channelName r (channels w) \<rparr>
               in Inr (r, subscribeChannel cfg r w1))"

definition unsubscribe :: "config \<Rightarrow> string \<Rightarrow> world \<Rightarrow> world" where
  "unsubscribe cfg channelName w =
     (case map_of (channels w) channelName of
        None \<Rightarrow> w
      | Some r \<Rightarrow>
          let w1 = channel_unsubscribe cfg r w
          in w1\<lparr> channels := map_delete channelName (channels w1) \<rparr>)"

text \<open>\<open>LatteStream.disconnect\<close>.\<close>

definition disconnect :: "config \<Rightarrow> world \<Rightarrow> world" where
  "disconnect cfg w =
     (let w1 = fold (\<lambda>(n, r). channel_unsubscribe cfg r) (channels w) w
      in connection_disconnect cfg (w1\<lparr> channels := [] \<rparr>))"

subsection \<open>Events\<close>

text \<open>
  What can happen to a client, one event at a time, as on the JavaScript event loop:
  a call by the application, a WebSocket event on socket \<open>k\<close>, a timeout that fires
  (with the value \<open>Math.random()\<close> returns, should the callback ask), or a promise that
  settles. The callbacks the application binds to events are not part of the model.
\<close>

datatype event =
    CallConnect
  | CallDisconnect
  | CallForceReconnect
  | CallSubscribe string
  | CallUnsubscribe string
  | CallTrigger nat string "jsval option"
  | SocketOpen nat
  | SocketMessage nat ws_data
  | SocketClose nat
  | SocketError nat
  | TimerFires nat real
  | DiscoverySettles "string option"
  | AuthorizationSettles nat "jsval option"

definition set_ready :: "nat \<Rightarrow> readyState \<Rightarrow> world \<Rightarrow> world" where
  "set_ready k s w = w\<lparr> sockets := (sockets w)[k := (sockets w ! k)\<lparr> ready := s \<rparr>] \<rparr>"

definition run_timer :: "config \<Rightarrow> timer_kind \<Rightarrow> real \<Rightarrow> world \<Rightarrow> world" where
  "run_timer cfg k rnd w =
     (case k of
        ReconnectTimer \<Rightarrow> connect cfg w
      | ActivityTimer \<Rightarrow> sendPing cfg w
      | PongTimer \<Rightarrow> connection_disconnect cfg w
      | DebounceTimer \<Rightarrow> attemptReconnect cfg rnd (w\<lparr> debounceTimeout := None \<rparr>)
      | FlushTimer \<Rightarrow> flush cfg w)"

text \<open>One event. An event that cannot happen in the state (a socket that was never
  created or is not in the right state, a timeout that is not pending) changes nothing.\<close>

definition step :: "config \<Rightarrow> event \<Rightarrow> world \<Rightarrow> world" where
  "step cfg e w =
     (case e of
        CallConnect \<Rightarrow> connect cfg w
      | CallDisconnect \<Rightarrow> disconnect cfg w
      | CallForceReconnect \<Rightarrow> forceReconnect cfg w
      | CallSubscribe n \<Rightarrow> (case subscribe cfg n w of Inl _ \<Rightarrow> w | Inr (_, w1) \<Rightarrow> w1)
      | CallUnsubscribe n \<Rightarrow> unsubscribe cfg n w
      | CallTrigger r ev d \<Rightarrow> (if r < length (chanHeap w) then snd (trigger cfg r ev d w) else w)
      | SocketOpen k \<Rightarrow>
          (if k < length (sockets w) \<and> ready (sockets w ! k) = CONNECTING
           then onopen cfg (set_ready k OPEN w) else w)
      | SocketMessage k d \<Rightarrow>
          (if k < length (sockets w) \<and> ready (sockets w ! k) = OPEN
           then onmessage cfg d w else w)
      | SocketClose k \<Rightarrow>
          (if k < length (sockets w) \<and> ready (sockets w ! k) \<noteq> CLOSED
           then handleDisconnection cfg (set_ready k CLOSED w) else w)
      | SocketError k \<Rightarrow> w
      | TimerFires t rnd \<Rightarrow>
          (case map_of (timers w) t of
             None \<Rightarrow> w
           | Some (k, _) \<Rightarrow> run_timer cfg k rnd (clearTimeout t w))
      | DiscoverySettles result \<Rightarrow> connect_resume cfg result w
      | AuthorizationSettles i result \<Rightarrow> authorize_done cfg i result w)"

fun run :: "config \<Rightarrow> event list \<Rightarrow> world \<Rightarrow> world" where
  "run cfg [] w = w"
| "run cfg (e # es) w = run cfg es (step cfg e w)"

text \<open>A frame that parses to a \<open>subscription_succeeded\<close> message for a channel
  that is registered.\<close>

definition subscription_frame :: "config \<Rightarrow> world \<Rightarrow> ws_data \<Rightarrow> bool" where
  "subscription_frame cfg w d =
     (case parse_frame cfg d of
        None \<Rightarrow> False
      | Some message \<Rightarrow>
          is_event (js_field (Some message) ''event'') ''subscription_succeeded''
          \<and> (case message_channel message of
                Some (JStr n) \<Rightarrow> map_of (channels w) n \<noteq> None
              | _ \<Rightarrow> False))"

text \<open>The empty options object \<open>{}\<close>, the constructor's default, and a client with a
  private token on which concrete runs are evaluated; its \<open>Math.pow\<close> returns the power
  correctly rounded.\<close>

definition sample_pow :: "real \<Rightarrow> nat \<Rightarrow> real" where
  "sample_pow x n = round64 (x ^ n)"

definition default_options :: LatteStreamOptions where
  "default_options =
     \<lparr> maxReconnectionAttempts = None, maxReconnectGapInSeconds = None,
       reconnectBaseDelay = None, reconnectBackoffMultiplier = None, reconnectJitter = None,
       activityTimeout = None, pongTimeout = None, enableBatching = None, batchSize = None,
       batchInterval = None, authEndpoint = None \<rparr>"

definition sample_config :: config where
  "sample_config =
     \<lparr> appKeyOrToken = ''lspc_demo'', options = default_options, runtime = sample_platform,
       math_pow = sample_pow \<rparr>"

subsection \<open>Notions the properties are stated with\<close>

text \<open>The events that are not calls by the application.\<close>

fun system_event :: "event \<Rightarrow> bool" where
  "system_event CallConnect = False"
| "system_event CallDisconnect = False"
| "system_event CallForceReconnect = False"
| "system_event (CallSubscribe _) = False"
| "system_event (CallUnsubscribe _) = False"
| "system_event (CallTrigger _ _ _) = False"
| "system_event _ = True"

text \<open>Nothing is left over from earlier attempts: no reconnect or pong timeout is
  pending, every socket the client created is closed, no discovery call is in flight.\<close>

definition quiet :: "world \<Rightarrow> bool" where
  "quiet w =
     (list_all (\<lambda>(i, k, d). k \<noteq> ReconnectTimer \<and> k \<noteq> PongTimer) (timers w)
      \<and> list_all (\<lambda>r. r = CLOSED) (map ready (sockets w))
      \<and> discoveryPending w = 0)"

text \<open>The state \<open>failed\<close> with the reconnection budget used up.\<close>

definition exhausted :: "config \<Rightarrow> world \<Rightarrow> bool" where
  "exhausted cfg w =
     (state w = Failed
      \<and> or_default (maxReconnectionAttempts (options cfg)) 6 \<le> real (reconnectAttempts w)
      \<and> quiet w)"


text \<open>A run in which a pong timeout is left over. The client allows one reconnection
  attempt, without jitter, and pings after one second without a message. The application
  calls \<open>connect()\<close> once; the transport opens and the connection is established; the
  activity timeout expires and a ping is sent; a message that is not a pong arrives;
  the activity timeout expires again and a second ping is sent; then the transport closes,
  the one reconnection attempt is made and its transport closes too.\<close>

definition pong_leak_config :: config where
  "pong_leak_config =
     sample_config\<lparr> options := default_options
       \<lparr> maxReconnectionAttempts := Some 1, reconnectJitter := Some False,
         activityTimeout := Some 1000 \<rparr> \<rparr>"

definition pong_leak_events :: "event list" where
  "pong_leak_events =
     [CallConnect, SocketOpen 0,
      SocketMessage 0 (Text ''{event:lattestream:connection_established,data:{socket_id:1.2}}''),
      TimerFires 2 0,
      SocketMessage 0 (Text ''{event:price,channel:news,data:{}}''),
      TimerFires 5 0,
      SocketClose 0, TimerFires 7 0, TimerFires 8 0, SocketClose 1, TimerFires 10 0]"

section \<open>Rounding to 53 significant bits\<close>

text \<open>Rounding to the nearest integer: integers are fixed, the function is monotone and odd.\<close>

lemma rne_int [simp]: "rne (of_int k) = k"
  by (simp add: rne_def)

lemma rne_numeral [simp]: "rne (numeral n) = numeral n"
  using rne_int [of "numeral n"] by simp

lemma rne_cases: "rne x = \<lfloor>x\<rfloor> \<or> rne x = \<lfloor>x\<rfloor> + 1"
  by (simp add: rne_def Let_def)

lemma rne_mono: "x \<le> y \<Longrightarrow> rne x \<le> rne y"
proof -
  assume xy: "x \<le> y"
  then have f: "\<lfloor>x\<rfloor> \<le> \<lfloor>y\<rfloor>" by (rule floor_mono)
  show ?thesis
  proof (cases "\<lfloor>x\<rfloor> = \<lfloor>y\<rfloor>")
    case True
    with xy show ?thesis by (auto simp: rne_def Let_def)
  next
    case False
    with f have "\<lfloor>x\<rfloor> + 1 \<le> \<lfloor>y\<rfloor>" by simp
    moreover have "rne x \<le> \<lfloor>x\<rfloor> + 1" using rne_cases [of x] by auto
    moreover have "\<lfloor>y\<rfloor> \<le> rne y" using rne_cases [of y] by auto
    ultimately show ?thesis by simp
  qed
qed

lemma rne_minus: "rne (- x) = - rne x"
proof (cases "x = of_int \<lfloor>x\<rfloor>")
  case True
  then obtain k where "x = of_int k" ..
  then have "- x = of_int (- k)" by simp
  with \<open>x = of_int k\<close> show ?thesis by (metis rne_int)
next
  case False
  then have fl: "\<lfloor>- x\<rfloor> = - \<lfloor>x\<rfloor> - 1"
    by (metis Ints_of_int ceiling_altdef ceiling_def floor_of_int minus_minus of_int_floor_cancel
        add.commute diff_minus_eq_add minus_diff_eq uminus_add_conv_diff)
  show ?thesis
    by (auto simp: rne_def Let_def fl)
qed


lemma binade_bounds:
  "x \<noteq> 0 \<Longrightarrow> 2 powr of_int (binade x) \<le> \<bar>x\<bar> \<and> \<bar>x\<bar> < 2 powr (of_int (binade x) + 1)"
  using floor_log_eq_powr_iff [of "\<bar>x\<bar>" 2 "binade x"] by (simp add: binade_def)

lemma binade_eqI:
  "2 powr of_int k \<le> \<bar>x\<bar> \<Longrightarrow> \<bar>x\<bar> < 2 powr (of_int k + 1) \<Longrightarrow> binade x = k"
proof -
  assume a: "2 powr of_int k \<le> \<bar>x\<bar>" and b: "\<bar>x\<bar> < 2 powr (of_int k + 1)"
  have "(0::real) < 2 powr of_int k" by simp
  with a have "0 < \<bar>x\<bar>" by linarith
  then show ?thesis
    using floor_log_eq_powr_iff [of "\<bar>x\<bar>" 2 k] a b by (simp add: binade_def)
qed

lemma pow52: "(2::real) powr of_int k = 2 ^ 52 * 2 powr (of_int k - 52)"
proof -
  have "(2::real) powr of_int k = 2 powr (52 + (of_int k - 52))" by simp
  also have "\<dots> = 2 powr 52 * 2 powr (of_int k - 52)" by (rule powr_add)
  finally show ?thesis by simp
qed

lemma pow53: "(2::real) powr (of_int k + 1) = 2 ^ 53 * 2 powr (of_int k - 52)"
proof -
  have "(2::real) powr (of_int k + 1) = 2 powr (53 + (of_int k - 52))" by (simp add: add.commute)
  also have "\<dots> = 2 powr 53 * 2 powr (of_int k - 52)" by (rule powr_add)
  finally show ?thesis by simp
qed

lemma scaled_bounds:
  assumes "x \<noteq> 0"
  shows "2 ^ 52 \<le> \<bar>x\<bar> / ulp x \<and> \<bar>x\<bar> / ulp x < 2 ^ 53"
proof -
  have "2 ^ 52 * ulp x \<le> \<bar>x\<bar>" and "\<bar>x\<bar> < 2 ^ 53 * ulp x"
    using binade_bounds [OF assms, unfolded pow52 pow53] by (simp_all add: ulp_def)
  then show ?thesis by (simp add: pos_le_divide_eq pos_divide_less_eq)
qed

lemma round64_minus: "round64 (- x) = - round64 x"
proof -
  have "ulp (- x) = ulp x" by (simp add: ulp_def binade_def)
  then show ?thesis by (simp add: round64_def rne_minus)
qed

lemma mantissa_pos:
  assumes "0 < x"
  shows "2 ^ 52 \<le> rne (x / ulp x) \<and> rne (x / ulp x) \<le> 2 ^ 53"
proof -
  from scaled_bounds [of x] assms
  have a: "of_int (2 ^ 52) \<le> x / ulp x" and b: "x / ulp x \<le> of_int (2 ^ 53)" by simp_all
  from rne_mono [OF a] rne_mono [OF b] show ?thesis by simp
qed







lemma round64_eqI:
  assumes "2 powr of_int e \<le> \<bar>x\<bar>" and "\<bar>x\<bar> < 2 powr (of_int e + 1)"
    and "rne (x / 2 powr (of_int e - 52)) = k"
  shows "round64 x = of_int k * 2 powr (of_int e - 52)"
proof -
  have "(0::real) < 2 powr of_int e" by simp
  with assms(1) have "x \<noteq> 0" by auto
  moreover have "binade x = e" using assms(1,2) by (rule binade_eqI)
  ultimately show ?thesis using assms(3) by (simp add: round64_def ulp_def)
qed

lemma round64_zero [simp]: "round64 0 = 0"
  by (simp add: round64_def)

lemma round64_idem_pos:
  assumes "0 < x"
  shows "round64 (round64 x) = round64 x"
proof -
  define e where "e = binade x"
  define u where "u = 2 powr (real_of_int e - 52)"
  define m where "m = rne (x / u)"
  have u: "0 < u" by (simp add: u_def)
  have ux: "ulp x = u" by (simp add: ulp_def u_def e_def)
  have y: "round64 x = of_int m * u" using assms by (simp add: round64_def ux m_def)
  from mantissa_pos [OF assms] have m: "2 ^ 52 \<le> m" "m \<le> 2 ^ 53" by (simp_all add: ux m_def)
  have p52: "2 powr real_of_int e = 2 ^ 52 * u" unfolding u_def by (rule pow52)
  have p53: "2 powr (real_of_int e + 1) = 2 ^ 53 * u" unfolding u_def by (rule pow53)
  have mr: "(2::real) ^ 52 \<le> of_int m"
  proof -
    from m(1) have "real_of_int (2 ^ 52) \<le> of_int m" by (intro of_int_le_iff [THEN iffD2])
    then show ?thesis by simp
  qed
  show ?thesis
  proof (cases "m = 2 ^ 53")
    case False
    with m have "m < 2 ^ 53" by simp
    then have "real_of_int m < of_int (2 ^ 53)" by (intro of_int_less_iff [THEN iffD2])
    then have ml: "real_of_int m < 2 ^ 53" by simp
    have a: "2 powr real_of_int e \<le> \<bar>of_int m * u\<bar>"
      using mr u by (simp add: p52 abs_mult)
    have b: "\<bar>of_int m * u\<bar> < 2 powr (real_of_int e + 1)"
      using ml mr u by (simp add: p53 abs_mult)
    have c: "rne (of_int m * u / 2 powr (real_of_int e - 52)) = m"
      using u by (simp add: u_def [symmetric])
    from round64_eqI [OF a b c] show ?thesis by (simp add: y u_def)
  next
    case True
    have yy: "round64 x = 2 powr (real_of_int (e + 1))"
      using p53 by (simp add: y True)
    have a: "2 powr real_of_int (e + 1) \<le> \<bar>round64 x\<bar>" by (simp add: yy)
    have b: "\<bar>round64 x\<bar> < 2 powr (real_of_int (e + 1) + 1)" by (simp add: yy)
    have "round64 x = 2 ^ 52 * 2 powr (real_of_int (e + 1) - 52)"
      unfolding yy by (rule pow52)
    moreover have "(2::real) powr (real_of_int (e + 1) - 52) \<noteq> 0" by simp
    ultimately have "round64 x / 2 powr (real_of_int (e + 1) - 52) = 2 ^ 52"
      by (metis nonzero_mult_div_cancel_right)
    then have c: "rne (round64 x / 2 powr (real_of_int (e + 1) - 52)) = 2 ^ 52" by simp
    from round64_eqI [OF a b c] have "round64 (round64 x) = 2 ^ 52 * 2 powr (real_of_int (e + 1) - 52)"
      by simp
    also have "\<dots> = 2 powr real_of_int (e + 1)" by (rule pow52 [symmetric])
    finally show ?thesis by (simp add: yy)
  qed
qed

lemma round64_idem [simp]: "round64 (round64 x) = round64 x"
proof -
  consider "0 < x" | "x = 0" | "x < 0" by linarith
  then show ?thesis
  proof cases
    case 1 then show ?thesis by (rule round64_idem_pos)
  next
    case 2 then show ?thesis by simp
  next
    case 3
    then have "0 < - x" by simp
    from round64_idem_pos [OF this] show ?thesis by (simp add: round64_minus)
  qed
qed


section \<open>Properties of the binary codec\<close>

lemma le_value_setUint32: "n < 2 ^ 32 \<Longrightarrow> le_value (setUint32 n) = n"
proof -
  assume n: "n < 2 ^ 32"
  define a where "a = n div 256"
  define b where "b = a div 256"
  define c where "c = b div 256"
  have d2: "n div 65536 = b" by (simp add: a_def b_def div_mult2_eq)
  have d3: "n div 16777216 = c" by (simp add: a_def b_def c_def div_mult2_eq)
  have c256: "c < 256" using n by (simp add: d3 [symmetric] less_mult_imp_div_less)
  have e1: "n = n mod 256 + 256 * a" by (simp add: a_def)
  have e2: "a = a mod 256 + 256 * b" by (simp add: b_def)
  have e3: "b = b mod 256 + 256 * c" by (simp add: c_def)
  have "le_value (setUint32 n) = n mod 256 + 256 * (a mod 256 + 256 * (b mod 256 + 256 * c))"
    using c256 by (simp add: setUint32_def unat_of_nat d2 d3 a_def [symmetric])
  also have "\<dots> = n" using e1 e2 e3 by simp
  finally show ?thesis .
qed

lemma getUint32_frame: "n < 2 ^ 32 \<Longrightarrow> getUint32 (setUint32 n @ rest) 0 = n"
  using le_value_setUint32[of n] by (simp add: getUint32_def setUint32_def)

lemma getUint32_frame4: "n < 2 ^ 32 \<Longrightarrow> getUint32 (setUint32 m @ setUint32 n @ rest) 4 = n"
  using le_value_setUint32[of n] by (simp add: getUint32_def setUint32_def)

lemma length_setUint32: "length (setUint32 n) = 4"
  by (simp add: setUint32_def)

lemma slice_frame: "bytes_slice (setUint32 m @ setUint32 n @ p) 8 (8 + length p) = p"
  by (simp add: bytes_slice_def length_setUint32)

lemma slice_frame4: "bytes_slice (setUint32 n @ md @ b) 4 (4 + length md) = md"
  by (simp add: bytes_slice_def length_setUint32)

lemma drop_frame4: "drop (4 + length md) (setUint32 n @ md @ b) = b"
  by (simp add: length_setUint32)

text \<open>
  C4. Decoding is \<open>parseLatteStreamBinaryProtocol\<close>. A buffer with no room for the
  8-byte header, a frame whose declared payloadLength exceeds the bytes after the header,
  and a frame whose payloadLength is zero are each answered with an error, never with
  data. A type \<open>0x02\<close> frame whose declared metadataLength exceeds the metadata bytes
  present is answered with the truncation error of \<open>parseBinaryPayloadWithMetadata\<close>
  (wrapped once by the outer \<open>catch\<close>), not with a JSON syntax error.
\<close>

theorem truncated_or_empty_frame_is_error:
  "(length bs < 8 \<longrightarrow>
      parseLatteStreamBinaryProtocol rt bs = Inl (MessageTooShort (length bs)))
   \<and> (8 \<le> length bs \<and> length bs - 8 < getUint32 bs 4 \<longrightarrow>
      parseLatteStreamBinaryProtocol rt bs
        = Inl (PayloadTruncated (8 + getUint32 bs 4) (length bs)))
   \<and> (8 \<le> length bs \<and> getUint32 bs 4 = 0 \<longrightarrow>
      parseLatteStreamBinaryProtocol rt bs = Inl ZeroPayloadLength)
   \<and> (8 \<le> length bs \<and> getUint32 bs 0 = 2 \<and> 4 \<le> getUint32 bs 4
        \<and> getUint32 bs 4 \<le> length bs - 8
        \<and> getUint32 bs 4 - 4 < getUint32 (bytes_slice bs 8 (8 + getUint32 bs 4)) 0 \<longrightarrow>
      parseLatteStreamBinaryProtocol rt bs
        = Inl (ProtocolParseFailed 2
            (MetadataTruncated (4 + getUint32 (bytes_slice bs 8 (8 + getUint32 bs 4)) 0)
               (getUint32 bs 4))))"
  by (auto simp: parseLatteStreamBinaryProtocol_def parseBinaryPayloadWithMetadata_def Let_def bytes_slice_def)


text \<open>Scenario D of the specification: metadataLength 20, 15 bytes present.\<close>

theorem truncated_or_empty_frame_is_error_witness:
  "8 \<le> length ([2,0,0,0, 19,0,0,0, 20,0,0,0] @ replicate 15 (123::byte))
   \<and> getUint32 ([2,0,0,0, 19,0,0,0, 20,0,0,0] @ replicate 15 123) 0 = 2
   \<and> getUint32 ([2,0,0,0, 19,0,0,0, 20,0,0,0] @ replicate 15 123) 4 = 19
   \<and> getUint32 (bytes_slice ([2,0,0,0, 19,0,0,0, 20,0,0,0] @ replicate 15 123) 8 27) 0 = 20
   \<and> parseLatteStreamBinaryProtocol sample_platform ([2,0,0,0, 19,0,0,0, 20,0,0,0] @ replicate 15 123)
       = Inl (ProtocolParseFailed 2 (MetadataTruncated 24 19))"
  using truncated_or_empty_frame_is_error [of "[2,0,0,0, 19,0,0,0, 20,0,0,0] @ replicate 15 123" sample_platform]
  by (simp add: getUint32_def bytes_slice_def)

text \<open>
  C3, as amended. For a payload \<open>p\<close> that the runtime's JSON and UTF-8 functions
  carry through unchanged (\<open>p\<close> is JSON-serializable), whose text is not empty and
  shorter than \<open>2^32\<close> bytes, decoding \<open>createBinaryMessage(0x01, p)\<close> yields
  \<open>p\<close>. For type \<open>0x02\<close> with a truthy metadata value \<open>m\<close> of that kind and
  a byte array \<open>b\<close>, decoding yields the properties of \<open>m\<close> spread flat with
  \<open>binaryData = b\<close> added: not the input \<open>{metadata: m, binaryData: b}\<close>.
\<close>

theorem binary_roundtrip:
  "(length (text_encode rt (json_stringify rt p)) < 2 ^ 32
      \<and> text_encode rt (json_stringify rt p) \<noteq> []
      \<and> json_parse rt (text_decode rt (text_encode rt (json_stringify rt p))) = Some p
    \<longrightarrow> (\<exists>frame. createBinaryMessage rt 1 p = Inr frame
           \<and> parseLatteStreamBinaryProtocol rt frame = Inr p))
   \<and> (map_of fs ''metadata'' = Some m \<and> truthy m
      \<and> map_of fs ''binaryData'' = Some (JBytes b)
      \<and> 4 + length (text_encode rt (json_stringify rt m)) + length b < 2 ^ 32
      \<and> text_encode rt (json_stringify rt m) \<noteq> []
      \<and> json_parse rt (text_decode rt (text_encode rt (json_stringify rt m))) = Some m
    \<longrightarrow> (\<exists>frame. createBinaryMessage rt 2 (JObj fs) = Inr frame
           \<and> parseLatteStreamBinaryProtocol rt frame
               = Inr (JObj (obj_set ''binaryData'' (JBytes b) (spread_fields m)))))"
proof (intro conjI impI)
  assume h: "length (text_encode rt (json_stringify rt p)) < 2 ^ 32
      \<and> text_encode rt (json_stringify rt p) \<noteq> []
      \<and> json_parse rt (text_decode rt (text_encode rt (json_stringify rt p))) = Some p"
  define pb where "pb = text_encode rt (json_stringify rt p)"
  from h have len: "length pb < 2 ^ 32" and ne: "pb \<noteq> []"
    and rtp: "json_parse rt (text_decode rt pb) = Some p"
    by (simp_all add: pb_def)
  define fr where "fr = setUint32 1 @ setUint32 (length pb) @ pb"
  have c: "createBinaryMessage rt 1 p = Inr fr"
    by (simp add: createBinaryMessage_def pb_def fr_def)
  have t: "getUint32 fr 0 = 1"
    unfolding fr_def by (rule getUint32_frame) simp
  have l: "getUint32 fr 4 = length pb"
    unfolding fr_def by (rule getUint32_frame4) (rule len)
  have n: "length fr = 8 + length pb"
    by (simp add: fr_def length_setUint32)
  have s: "bytes_slice fr 8 (8 + length pb) = pb"
    unfolding fr_def by (rule slice_frame)
  have "parseLatteStreamBinaryProtocol rt fr = Inr p"
    using ne rtp
    by (simp add: parseLatteStreamBinaryProtocol_def t l n s parse_json_bytes_def)
  with c show "\<exists>frame. createBinaryMessage rt 1 p = Inr frame
           \<and> parseLatteStreamBinaryProtocol rt frame = Inr p"
    by simp
next
  assume h: "map_of fs ''metadata'' = Some m \<and> truthy m
      \<and> map_of fs ''binaryData'' = Some (JBytes b)
      \<and> 4 + length (text_encode rt (json_stringify rt m)) + length b < 2 ^ 32
      \<and> text_encode rt (json_stringify rt m) \<noteq> []
      \<and> json_parse rt (text_decode rt (text_encode rt (json_stringify rt m))) = Some m"
  define mb where "mb = text_encode rt (json_stringify rt m)"
  define pb where "pb = setUint32 (length mb) @ mb @ b"
  from h have len: "4 + length mb + length b < 2 ^ 32" and ne: "mb \<noteq> []"
    and rtm: "json_parse rt (text_decode rt mb) = Some m"
    and fm: "map_of fs ''metadata'' = Some m" and tm: "truthy m"
    and fb: "map_of fs ''binaryData'' = Some (JBytes b)"
    by (simp_all add: mb_def)
  have lpb: "length pb = 4 + length mb + length b"
    by (simp add: pb_def length_setUint32)
  define fr where "fr = setUint32 2 @ setUint32 (length pb) @ pb"
  have c: "createBinaryMessage rt 2 (JObj fs) = Inr fr"
    using fm tm fb
    by (simp add: createBinaryMessage_def truthy_opt_def pb_def mb_def fr_def Let_def)
  have t: "getUint32 fr 0 = 2"
    unfolding fr_def by (rule getUint32_frame) simp
  have l: "getUint32 fr 4 = length pb"
    unfolding fr_def by (rule getUint32_frame4) (use len lpb in simp)
  have n: "length fr = 8 + length pb"
    by (simp add: fr_def length_setUint32)
  have s: "bytes_slice fr 8 (8 + length pb) = pb"
    unfolding fr_def by (rule slice_frame)
  have ml: "getUint32 pb 0 = length mb"
    unfolding pb_def by (rule getUint32_frame) (use len in simp)
  have ms: "bytes_slice pb 4 (4 + length mb) = mb"
    unfolding pb_def by (rule slice_frame4)
  have md: "drop (4 + length mb) pb = b"
    unfolding pb_def by (rule drop_frame4)
  have inner: "parseBinaryPayloadWithMetadata rt pb
      = Inr (JObj (obj_set ''binaryData'' (JBytes b) (spread_fields m)))"
    using ne rtm
    by (simp add: parseBinaryPayloadWithMetadata_def ml lpb ms md parse_json_bytes_def)
  have "parseLatteStreamBinaryProtocol rt fr
      = Inr (JObj (obj_set ''binaryData'' (JBytes b) (spread_fields m)))"
  proof -
    have pos: "pb \<noteq> []" using lpb by auto
    show ?thesis
      using pos by (simp add: parseLatteStreamBinaryProtocol_def t l n s inner)
  qed
  with c show "\<exists>frame. createBinaryMessage rt 2 (JObj fs) = Inr frame
           \<and> parseLatteStreamBinaryProtocol rt frame
               = Inr (JObj (obj_set ''binaryData'' (JBytes b) (spread_fields m)))"
    by simp
qed

text \<open>C3 as stated fails for type \<open>0x02\<close>: the payload
  \<open>{metadata: {}, binaryData: [72, 101]}\<close> comes back as \<open>{binaryData: [72, 101]}\<close>.\<close>

theorem binary_roundtrip_type2_counterexample:
  "createBinaryMessage sample_platform 2
       (JObj [(''metadata'', JObj []), (''binaryData'', JBytes [72, 101])])
     = Inr [2,0,0,0, 8,0,0,0, 2,0,0,0, 123,125, 72,101]
   \<and> parseLatteStreamBinaryProtocol sample_platform [2,0,0,0, 8,0,0,0, 2,0,0,0, 123,125, 72,101]
     = Inr (JObj [(''binaryData'', JBytes [72, 101])])
   \<and> parseLatteStreamBinaryProtocol sample_platform [2,0,0,0, 8,0,0,0, 2,0,0,0, 123,125, 72,101]
     \<noteq> Inr (JObj [(''metadata'', JObj []), (''binaryData'', JBytes [72, 101])])"
proof -
  have c: "createBinaryMessage sample_platform 2
       (JObj [(''metadata'', JObj []), (''binaryData'', JBytes [72, 101])])
     = Inr [2,0,0,0, 8,0,0,0, 2,0,0,0, 123,125, 72,101]"
    by (simp add: createBinaryMessage_def sample_platform_def sample_frames_def truthy_opt_def setUint32_def)
  have p: "parseBinaryPayloadWithMetadata sample_platform [2,0,0,0, 123,125, 72,101]
     = Inr (JObj [(''binaryData'', JBytes [72, 101])])"
    by (simp add: parseBinaryPayloadWithMetadata_def parse_json_bytes_def sample_platform_def sample_frames_def
        getUint32_def bytes_slice_def)
  have d: "parseLatteStreamBinaryProtocol sample_platform [2,0,0,0, 8,0,0,0, 2,0,0,0, 123,125, 72,101]
     = Inr (JObj [(''binaryData'', JBytes [72, 101])])"
    by (simp add: parseLatteStreamBinaryProtocol_def getUint32_def bytes_slice_def p)
  show ?thesis by (simp add: c d)
qed

theorem binary_roundtrip_witness:
  "map_of [(''metadata'', JObj []), (''binaryData'', JBytes [72, 101])] ''metadata'' = Some (JObj [])
   \<and> text_encode sample_platform (json_stringify sample_platform (JObj [])) = [123, 125]
   \<and> json_parse sample_platform (text_decode sample_platform [123, 125]) = Some (JObj [])
   \<and> (\<exists>frame. createBinaryMessage sample_platform 1 (JObj []) = Inr frame
         \<and> parseLatteStreamBinaryProtocol sample_platform frame = Inr (JObj []))
   \<and> (\<exists>frame. createBinaryMessage sample_platform 2
                 (JObj [(''metadata'', JObj []), (''binaryData'', JBytes [72, 101])]) = Inr frame
         \<and> parseLatteStreamBinaryProtocol sample_platform frame
              = Inr (JObj [(''binaryData'', JBytes [72, 101])]))"
proof -
  have e: "text_encode sample_platform (json_stringify sample_platform (JObj [])) = [123, 125]"
    by (simp add: sample_platform_def sample_frames_def)
  have d: "json_parse sample_platform (text_decode sample_platform [123, 125]) = Some (JObj [])"
    by (simp add: sample_platform_def sample_frames_def)
  show ?thesis
    using binary_roundtrip [of sample_platform "JObj []"
        "[(''metadata'', JObj []), (''binaryData'', JBytes [72, 101])]" "JObj []" "[72, 101]"]
    by (simp add: e d)
qed

section \<open>Properties of the authorization strings\<close>

lemma split_on_nonempty: "split_on c s \<noteq> []"
  by (induction s) (auto split: list.splits)

lemma split_on_no_sep: "c \<notin> set s \<Longrightarrow> split_on c s = [s]"
  by (induction s) auto

lemma split_on_first: "c \<notin> set a \<Longrightarrow> split_on c (a @ c # rest) = a # split_on c rest"
  by (induction a) auto

lemma charCodeAt_inj: "charCodeAt x = charCodeAt y \<longleftrightarrow> x = y"
proof
  assume h: "charCodeAt x = charCodeAt y"
  have lt: "of_char c < (4294967296::nat)" for c
    by (rule less_trans [of _ 256]) simp_all
  have mx: "(of_char x :: nat) mod 4294967296 = of_char x" by (rule mod_less) (rule lt)
  have my: "(of_char y :: nat) mod 4294967296 = of_char y" by (rule mod_less) (rule lt)
  from h have "unat (of_nat (of_char x) :: 32 word) = unat (of_nat (of_char y) :: 32 word)"
    by (simp add: charCodeAt_def)
  then have "(of_char x :: nat) = of_char y"
    by (simp add: unat_of_nat mx my)
  then show "x = y" by simp
qed simp

lemma word_xor_zero_iff: "(a::32 word) XOR b = 0 \<longleftrightarrow> a = b"
  by (metis bit.xor_left_self xor.right_neutral)

lemma compare_loop_zero:
  "length a = length b \<Longrightarrow> compare_loop r a b = 0 \<longleftrightarrow> r = 0 \<and> a = b"
proof (induction r a b rule: compare_loop.induct)
  case (3 result x a y b)
  then show ?case by (auto simp: charCodeAt_inj or_eq_0_iff word_xor_zero_iff)
qed auto

lemma constantTimeCompare_eq: "constantTimeCompare a b \<longleftrightarrow> a = b"
  by (auto simp: constantTimeCompare_def compare_loop_zero)

lemma split_on_fields: "w \<in> set (split_on c s) \<Longrightarrow> c \<notin> set w"
proof (induction s arbitrary: w)
  case Nil
  then show ?case by simp
next
  case (Cons x xs)
  show ?case
  proof (cases "x = c")
    case True
    with Cons show ?thesis by auto
  next
    case False
    obtain v vs where v: "split_on c xs = v # vs"
      using split_on_nonempty [of c xs] by (cases "split_on c xs") auto
    with False Cons.prems have "w = x # v \<or> w \<in> set vs" by auto
    with False Cons.IH v show ?thesis by auto
  qed
qed

lemma sample_hmac_hex: "CHR '':'' \<notin> set (sample_hmac k m) \<and> sample_hmac k m \<noteq> []"
  by (simp add: sample_hmac_def)

text \<open>
  C9, as amended. \<open>generateAuthString\<close> returns the socket id, a colon and the HMAC
  of the signing string; the signing string is socketId:channelName, extended with
  :channelData when channelData is present and not empty. For a digest without colons
  (hex), \<open>verifyAuthString\<close> looks at the first two colon-separated fields of the auth
  string only: it accepts exactly when both are non-empty and the second equals the digest
  recomputed from the first. So, for a non-empty socket id without a colon, it accepts
  the generated string, rejects every string socketId:g whose signature g differs from the
  digest anywhere, and on other channel data accepts exactly when the two signing strings
  have the same digest.
\<close>

theorem auth_string_generate_verify:
  "generateAuthString hmac k sid ch cd = sid @ '':'' @ hmac k (finalString sid ch cd)
   \<and> ((\<forall>m. CHR '':'' \<notin> set (hmac k m)) \<longrightarrow>
        (verifyAuthString hmac k auth ch cd \<longleftrightarrow>
           (\<exists>s g rest. split_on CHR '':'' auth = s # g # rest \<and> s \<noteq> [] \<and> g \<noteq> []
              \<and> g = hmac k (finalString s ch cd))))
   \<and> ((\<forall>m. CHR '':'' \<notin> set (hmac k m) \<and> hmac k m \<noteq> []) \<and> sid \<noteq> [] \<and> CHR '':'' \<notin> set sid \<longrightarrow>
        verifyAuthString hmac k (generateAuthString hmac k sid ch cd) ch cd
        \<and> (\<forall>g. g \<noteq> hmac k (finalString sid ch cd) \<and> CHR '':'' \<notin> set g \<longrightarrow>
               \<not> verifyAuthString hmac k (sid @ '':'' @ g) ch cd)
        \<and> (\<forall>cd'. verifyAuthString hmac k (generateAuthString hmac k sid ch cd) ch cd'
               \<longleftrightarrow> hmac k (finalString sid ch cd) = hmac k (finalString sid ch cd')))"
proof (intro conjI impI)
  show g: "generateAuthString hmac k sid ch cd = sid @ '':'' @ hmac k (finalString sid ch cd)" for sid cd
    by (simp add: generateAuthString_def finalString_def Let_def split: option.splits)
  have v: "verifyAuthString hmac k auth ch cd \<longleftrightarrow>
           (\<exists>s g rest. split_on CHR '':'' auth = s # g # rest \<and> s \<noteq> [] \<and> g \<noteq> []
              \<and> g = hmac k (finalString s ch cd))"
    if hex: "\<forall>m. CHR '':'' \<notin> set (hmac k m)" for auth cd
  proof (cases "split_on CHR '':'' auth")
    case Nil
    then show ?thesis by (simp add: verifyAuthString_def)
  next
    case (Cons s r)
    show ?thesis
    proof (cases r)
      case Nil
      with Cons show ?thesis by (simp add: verifyAuthString_def)
    next
      case (Cons sg rest)
      have ns: "CHR '':'' \<notin> set s"
        using split_on_fields [of s "CHR '':''" auth] \<open>split_on CHR '':'' auth = s # r\<close> by simp
      have e: "split_on CHR '':'' (generateAuthString hmac k s ch cd)
          = [s, hmac k (finalString s ch cd)]"
        using hex ns by (simp add: g split_on_first split_on_no_sep)
      show ?thesis
        using \<open>split_on CHR '':'' auth = s # r\<close> Cons
        by (auto simp: verifyAuthString_def e constantTimeCompare_eq Let_def)
    qed
  qed
  show "verifyAuthString hmac k auth ch cd \<longleftrightarrow>
           (\<exists>s g rest. split_on CHR '':'' auth = s # g # rest \<and> s \<noteq> [] \<and> g \<noteq> []
              \<and> g = hmac k (finalString s ch cd))"
    if "\<forall>m. CHR '':'' \<notin> set (hmac k m)"
    using that by (rule v)
  assume h: "(\<forall>m. CHR '':'' \<notin> set (hmac k m) \<and> hmac k m \<noteq> []) \<and> sid \<noteq> [] \<and> CHR '':'' \<notin> set sid"
  then have hex: "\<forall>m. CHR '':'' \<notin> set (hmac k m)" and ne: "\<And>m. hmac k m \<noteq> []"
    and sid: "sid \<noteq> []" "CHR '':'' \<notin> set sid" by auto
  have sp: "split_on CHR '':'' (sid @ CHR '':'' # x) = [sid, x]" if "CHR '':'' \<notin> set x" for x
    using sid that by (simp add: split_on_first split_on_no_sep)
  show "verifyAuthString hmac k (generateAuthString hmac k sid ch cd) ch cd"
    using hex ne sid by (simp add: v [OF hex] g sp)
  show "\<forall>g. g \<noteq> hmac k (finalString sid ch cd) \<and> CHR '':'' \<notin> set g \<longrightarrow>
               \<not> verifyAuthString hmac k (sid @ '':'' @ g) ch cd"
    using sid by (auto simp: v [OF hex] sp)
  show "\<forall>cd'. verifyAuthString hmac k (generateAuthString hmac k sid ch cd) ch cd'
               \<longleftrightarrow> hmac k (finalString sid ch cd) = hmac k (finalString sid ch cd')"
    using hex ne sid by (auto simp: v [OF hex] g sp)
qed

text \<open>
  C9 as stated fails: the string \<open>1.2:c0de:junk\<close> is accepted although no socket id
  and channel data generate it (the fields after the second are ignored), and the empty
  channelData is signed, and verified, like an absent one.
\<close>

theorem auth_string_verify_counterexample:
  "verifyAuthString sample_hmac ''key'' ''1.2:c0de:junk'' ''private-x'' None
   \<and> (\<forall>sid cd. generateAuthString sample_hmac ''key'' sid ''private-x'' cd \<noteq> ''1.2:c0de:junk'')
   \<and> generateAuthString sample_hmac ''key'' ''1.2'' ''private-x'' (Some [])
       = ''1.2:'' @ sample_hmac ''key'' ''1.2:private-x''
   \<and> verifyAuthString sample_hmac ''key''
         (generateAuthString sample_hmac ''key'' ''1.2'' ''private-x'' None) ''private-x'' (Some [])"
proof -
  have f1: "finalString ''1.2'' ''private-x'' None = ''1.2:private-x''"
    by (simp add: finalString_def)
  have f2: "finalString ''1.2'' ''private-x'' (Some []) = ''1.2:private-x''"
    by (simp add: finalString_def)
  have h1: "sample_hmac ''key'' ''1.2:private-x'' = ''c0de''"
    by (simp add: sample_hmac_def)
  have g: "generateAuthString sample_hmac ''key'' ''1.2'' ''private-x'' cd = ''1.2:c0de''"
    if "cd = None \<or> cd = Some []" for cd
    using that by (auto simp: generateAuthString_def f1 f2 h1)
  have c: "constantTimeCompare ''c0de'' ''c0de''"
    by (simp add: constantTimeCompare_eq)
  have v1: "verifyAuthString sample_hmac ''key'' ''1.2:c0de:junk'' ''private-x'' None"
    by (simp add: verifyAuthString_def g c)
  have v2: "verifyAuthString sample_hmac ''key'' ''1.2:c0de'' ''private-x'' (Some [])"
    by (simp add: verifyAuthString_def g c)
  have n: "generateAuthString sample_hmac ''key'' sid ''private-x'' cd \<noteq> ''1.2:c0de:junk''" for sid cd
  proof
    assume "generateAuthString sample_hmac ''key'' sid ''private-x'' cd = ''1.2:c0de:junk''"
    then have "last (sid @ '':'' @ sample_hmac ''key'' (finalString sid ''private-x'' cd))
        = last ''1.2:c0de:junk''"
      by (simp add: generateAuthString_def)
    then show False
      by (simp add: sample_hmac_def split: if_splits)
  qed
  show ?thesis using v1 v2 n by (simp add: g h1)
qed

theorem auth_string_generate_verify_witness:
  "(\<forall>m. CHR '':'' \<notin> set (sample_hmac ''key'' m) \<and> sample_hmac ''key'' m \<noteq> [])
   \<and> generateAuthString sample_hmac ''key'' ''1.2'' ''private-x'' None = ''1.2:c0de''
   \<and> generateAuthString sample_hmac ''key'' ''1.2'' ''presence-x'' (Some ''{}'') = ''1.2:c0de''
   \<and> verifyAuthString sample_hmac ''key'' ''1.2:c0de'' ''private-x'' None
   \<and> \<not> verifyAuthString sample_hmac ''key'' ''1.2:c0df'' ''private-x'' None
   \<and> \<not> verifyAuthString sample_hmac ''key'' ''1.2:c0de'' ''private-x'' (Some ''{}'')"
proof -
  have f1: "finalString ''1.2'' ''private-x'' None = ''1.2:private-x''"
    by (simp add: finalString_def)
  have f2: "finalString ''1.2'' ''presence-x'' (Some ''{}'') = ''1.2:presence-x:{}''"
    by (simp add: finalString_def)
  have f3: "finalString ''1.2'' ''private-x'' (Some ''{}'') = ''1.2:private-x:{}''"
    by (simp add: finalString_def)
  have h1: "sample_hmac ''key'' ''1.2:private-x'' = ''c0de''"
    by (simp add: sample_hmac_def)
  have h2: "sample_hmac ''key'' ''1.2:presence-x:{}'' = ''c0de''"
    by (simp add: sample_hmac_def)
  have h3: "sample_hmac ''key'' ''1.2:private-x:{}'' = ''f00d''"
    by (simp add: sample_hmac_def)
  have pre: "(\<forall>m. CHR '':'' \<notin> set (sample_hmac ''key'' m) \<and> sample_hmac ''key'' m \<noteq> [])
      \<and> ''1.2'' \<noteq> [] \<and> CHR '':'' \<notin> set ''1.2''"
    by (simp add: sample_hmac_def)
  note t1 = auth_string_generate_verify [of sample_hmac "''key''" "''1.2''" "''private-x''" None, THEN conjunct1]
  note t3 = auth_string_generate_verify [of sample_hmac "''key''" "''1.2''" "''private-x''" None,
      THEN conjunct2, THEN conjunct2, THEN mp, OF pre]
  have a: "generateAuthString sample_hmac ''key'' ''1.2'' ''private-x'' None = ''1.2:c0de''"
    using t1 by (simp add: f1 h1)
  have b: "generateAuthString sample_hmac ''key'' ''1.2'' ''presence-x'' (Some ''{}'') = ''1.2:c0de''"
    by (simp add: generateAuthString_def f2 h2)
  have c: "verifyAuthString sample_hmac ''key'' ''1.2:c0de'' ''private-x'' None"
    using t3 [THEN conjunct1] by (simp add: a)
  have "\<not> verifyAuthString sample_hmac ''key'' (''1.2'' @ '':'' @ ''c0df'') ''private-x'' None"
    by (rule t3 [THEN conjunct2, THEN conjunct1, THEN spec, THEN mp]) (simp add: f1 h1)
  then have d: "\<not> verifyAuthString sample_hmac ''key'' ''1.2:c0df'' ''private-x'' None"
    by simp
  have e: "\<not> verifyAuthString sample_hmac ''key'' ''1.2:c0de'' ''private-x'' (Some ''{}'')"
    using t3 [THEN conjunct2, THEN conjunct2, THEN spec, of "Some ''{}''"]
    by (simp add: a f1 h1 f3 h3)
  show ?thesis using a b c d e sample_hmac_hex by simp
qed

section \<open>Properties of presence membership\<close>

lemma map_of_map_set: "map_of (map_set k v m) k = Some v"
  by (induction m) auto

lemma map_of_map_set_other: "k' \<noteq> k \<Longrightarrow> map_of (map_set k v m) k' = map_of m k'"
  by (induction m) auto

lemma keys_map_set:
  "map fst (map_set k v m) = (if k \<in> set (map fst m) then map fst m else map fst m @ [k])"
proof (induction m)
  case Nil
  then show ?case by simp
next
  case (Cons a m)
  obtain k' v' where a: "a = (k', v')" by (cases a)
  show ?case using Cons a by (cases "k' = k") auto
qed

lemma distinct_map_set: "distinct (map fst m) \<Longrightarrow> distinct (map fst (map_set k v m))"
  by (simp add: keys_map_set)

lemma count_key:
  "distinct (map fst m) \<Longrightarrow> k \<in> set (map fst m) \<Longrightarrow> length (filter (\<lambda>(k', _). k' = k) m) = 1"
proof (induction m)
  case Nil
  then show ?case by simp
next
  case (Cons a m)
  obtain k' v' where a: "a = (k', v')" by (cases a)
  show ?case
  proof (cases "k' = k")
    case True
    with Cons.prems a have "k \<notin> set (map fst m)" by auto
    then have "filter (\<lambda>(k', _). k' = k) m = []"
      by (force simp: filter_empty_conv)
    with True a show ?thesis by simp
  next
    case False
    with Cons a show ?thesis by auto
  qed
qed

lemma acquire_fresh:
  "\<forall>p \<in> set (memberPool w). p < length (memberHeap w) \<Longrightarrow>
   fst (acquire w) < length (memberHeap (snd (acquire w)))
   \<and> (\<forall>p \<in> set (memberPool (snd (acquire w))). p < length (memberHeap (snd (acquire w))))
   \<and> chanHeap (snd (acquire w)) = chanHeap w"
proof (cases "memberPool w" rule: rev_cases)
  case Nil
  then show ?thesis by (simp add: acquire_def)
next
  case (snoc ps p)
  assume "\<forall>p \<in> set (memberPool w). p < length (memberHeap w)"
  with snoc show ?thesis by (simp add: acquire_def)
qed

lemma handleMemberAdded_effect:
  assumes "r < length (chanHeap w)"
    and "\<forall>p \<in> set (memberPool w). p < length (memberHeap w)"
  shows "\<exists>p. p < length (memberHeap (handleMemberAdded cfg r m w))
           \<and> memberHeap (handleMemberAdded cfg r m w) ! p = \<lparr> member_id = member_id m, member_info = member_info m \<rparr>
           \<and> members (chanHeap (handleMemberAdded cfg r m w) ! r) = map_set (member_id m) p (members (chanHeap w ! r))
           \<and> length (chanHeap (handleMemberAdded cfg r m w)) = length (chanHeap w)
           \<and> (\<forall>p \<in> set (memberPool (handleMemberAdded cfg r m w)). p < length (memberHeap (handleMemberAdded cfg r m w)))"
proof -
  obtain p w1 where a: "acquire w = (p, w1)" by (cases "acquire w")
  from acquire_fresh [OF assms(2)] a
  have p: "p < length (memberHeap w1)" and pool: "\<forall>p \<in> set (memberPool w1). p < length (memberHeap w1)"
    and ch: "chanHeap w1 = chanHeap w" by simp_all
  show ?thesis
    using p pool ch assms(1)
    by (intro exI [of _ p]) (simp add: handleMemberAdded_def a upd_chan_def emit_def Let_def)
qed

text \<open>
  C8. On a presence channel whose member map has one entry per key and with a pool of
  valid member objects: after adding the same id twice, the member map has exactly one
  entry for the id, the object it refers to holds the id and the info of the second add,
  and the keys are those after the first add. Removing an id that is not in the map
  returns the state as it was: nothing is deleted, no event is emitted, nothing is
  released to the pool.
\<close>

theorem presence_membership_idempotent:
  assumes r: "r < length (chanHeap w)"
    and d: "distinct (map fst (members (chanHeap w ! r)))"
    and pool: "\<forall>p \<in> set (memberPool w). p < length (memberHeap w)"
  shows
   "(\<exists>p. map_of (members (chanHeap
                (handleMemberAdded cfg r \<lparr> member_id = i, member_info = b \<rparr>
                  (handleMemberAdded cfg r \<lparr> member_id = i, member_info = a \<rparr> w)) ! r)) i = Some p
        \<and> p < length (memberHeap
                (handleMemberAdded cfg r \<lparr> member_id = i, member_info = b \<rparr>
                  (handleMemberAdded cfg r \<lparr> member_id = i, member_info = a \<rparr> w)))
        \<and> memberHeap
                (handleMemberAdded cfg r \<lparr> member_id = i, member_info = b \<rparr>
                  (handleMemberAdded cfg r \<lparr> member_id = i, member_info = a \<rparr> w)) ! p
            = \<lparr> member_id = i, member_info = b \<rparr>)
    \<and> length (filter (\<lambda>(k, _). k = i)
          (members (chanHeap
                (handleMemberAdded cfg r \<lparr> member_id = i, member_info = b \<rparr>
                  (handleMemberAdded cfg r \<lparr> member_id = i, member_info = a \<rparr> w)) ! r))) = 1
    \<and> map fst (members (chanHeap
                (handleMemberAdded cfg r \<lparr> member_id = i, member_info = b \<rparr>
                  (handleMemberAdded cfg r \<lparr> member_id = i, member_info = a \<rparr> w)) ! r))
        = map fst (members (chanHeap (handleMemberAdded cfg r \<lparr> member_id = i, member_info = a \<rparr> w) ! r))
    \<and> (map_of (members (chanHeap w ! r)) i = None \<longrightarrow>
          handleMemberRemoved cfg r \<lparr> member_id = i, member_info = x \<rparr> w = w)"
proof -
  let ?w1 = "handleMemberAdded cfg r \<lparr> member_id = i, member_info = a \<rparr> w"
  let ?w2 = "handleMemberAdded cfg r \<lparr> member_id = i, member_info = b \<rparr> ?w1"
  from handleMemberAdded_effect [OF r pool, of cfg "\<lparr> member_id = i, member_info = a \<rparr>"]
  obtain p1 where m1: "members (chanHeap ?w1 ! r) = map_set i p1 (members (chanHeap w ! r))"
    and r1: "r < length (chanHeap ?w1)"
    and pool1: "\<forall>p \<in> set (memberPool ?w1). p < length (memberHeap ?w1)"
    using r by auto
  from handleMemberAdded_effect [OF r1 pool1, of cfg "\<lparr> member_id = i, member_info = b \<rparr>"]
  obtain p2 where p2: "p2 < length (memberHeap ?w2)"
    and h2: "memberHeap ?w2 ! p2 = \<lparr> member_id = i, member_info = b \<rparr>"
    and m2: "members (chanHeap ?w2 ! r) = map_set i p2 (members (chanHeap ?w1 ! r))"
    by auto
  have d1: "distinct (map fst (members (chanHeap ?w1 ! r)))"
    unfolding m1 using d by (rule distinct_map_set)
  have k1: "i \<in> set (map fst (members (chanHeap ?w1 ! r)))"
    unfolding m1 by (simp add: keys_map_set)
  have keys: "map fst (members (chanHeap ?w2 ! r)) = map fst (members (chanHeap ?w1 ! r))"
    unfolding m2 using k1 by (simp add: keys_map_set)
  have one: "length (filter (\<lambda>(k, _). k = i) (members (chanHeap ?w2 ! r))) = 1"
    by (rule count_key) (use d1 k1 keys in simp_all)
  have look: "map_of (members (chanHeap ?w2 ! r)) i = Some p2"
    unfolding m2 by (rule map_of_map_set)
  have rem: "map_of (members (chanHeap w ! r)) i = None \<longrightarrow>
          handleMemberRemoved cfg r \<lparr> member_id = i, member_info = x \<rparr> w = w"
    by (simp add: handleMemberRemoved_def)
  from look p2 h2 one keys rem show ?thesis by blast
qed

theorem presence_membership_idempotent_witness:
  "0 < length (chanHeap (init_world\<lparr> chanHeap := [new_channel ''presence-room'' PresenceChannel],
                                     channels := [(''presence-room'', 0)] \<rparr>))
   \<and> distinct (map fst (members (chanHeap (init_world\<lparr> chanHeap := [new_channel ''presence-room'' PresenceChannel],
                                     channels := [(''presence-room'', 0)] \<rparr>) ! 0)))
   \<and> list_all (\<lambda>p. p < length (memberHeap init_world)) (memberPool init_world)
   \<and> map_of (members (chanHeap (init_world\<lparr> chanHeap := [new_channel ''presence-room'' PresenceChannel],
                                     channels := [(''presence-room'', 0)] \<rparr>) ! 0)) ''u1'' = None
   \<and> handleMemberRemoved sample_config 0 \<lparr> member_id = ''u1'', member_info = None \<rparr>
        (init_world\<lparr> chanHeap := [new_channel ''presence-room'' PresenceChannel],
                     channels := [(''presence-room'', 0)] \<rparr>)
      = init_world\<lparr> chanHeap := [new_channel ''presence-room'' PresenceChannel],
                     channels := [(''presence-room'', 0)] \<rparr>
   \<and> length (filter (\<lambda>(k, _). k = ''u1'')
          (members (chanHeap
                (handleMemberAdded sample_config 0 \<lparr> member_id = ''u1'', member_info = Some (JStr ''new'') \<rparr>
                  (handleMemberAdded sample_config 0 \<lparr> member_id = ''u1'', member_info = Some (JStr ''old'') \<rparr>
                     (init_world\<lparr> chanHeap := [new_channel ''presence-room'' PresenceChannel],
                                  channels := [(''presence-room'', 0)] \<rparr>))) ! 0))) = 1"
proof -
  let ?w = "init_world\<lparr> chanHeap := [new_channel ''presence-room'' PresenceChannel],
                        channels := [(''presence-room'', 0)] \<rparr>"
  have r: "0 < length (chanHeap ?w)" by simp
  have d: "distinct (map fst (members (chanHeap ?w ! 0)))" by (simp add: new_channel_def)
  have pool: "\<forall>p \<in> set (memberPool ?w). p < length (memberHeap ?w)"
    by (simp add: init_world_def)
  have la: "list_all (\<lambda>p. p < length (memberHeap init_world)) (memberPool init_world)"
    by (simp add: init_world_def list_all_iff)
  have n: "map_of (members (chanHeap ?w ! 0)) ''u1'' = None" by (simp add: new_channel_def)
  note t = presence_membership_idempotent [OF r d pool, of sample_config "''u1''" "Some (JStr ''new'')" "Some (JStr ''old'')" None]
  from t n have rem: "handleMemberRemoved sample_config 0 \<lparr> member_id = ''u1'', member_info = None \<rparr> ?w = ?w"
    by blast
  from t have one: "length (filter (\<lambda>(k, _). k = ''u1'')
          (members (chanHeap
                (handleMemberAdded sample_config 0 \<lparr> member_id = ''u1'', member_info = Some (JStr ''new'') \<rparr>
                  (handleMemberAdded sample_config 0 \<lparr> member_id = ''u1'', member_info = Some (JStr ''old'') \<rparr> ?w)) ! 0))) = 1"
    by blast
  from r d la n rem one show ?thesis by blast
qed

section \<open>Properties of the reconnection counter\<close>

text \<open>Which functions leave \<open>reconnectAttempts\<close> alone.\<close>

lemma ra_basic [simp]:
  "reconnectAttempts (snd (setTimeout tk dl w)) = reconnectAttempts w"
  "reconnectAttempts (clearTimeout t w) = reconnectAttempts w"
  "reconnectAttempts (snd (sendRaw cfg m w)) = reconnectAttempts w"
  "reconnectAttempts (upd_chan r f w) = reconnectAttempts w"
  "reconnectAttempts (private_subscribe cfg r sid w) = reconnectAttempts w"
  "reconnectAttempts (snd (acquire w)) = reconnectAttempts w"
  "reconnectAttempts (release p w) = reconnectAttempts w"
  "reconnectAttempts (queue_clear w) = reconnectAttempts w"
  "reconnectAttempts (clearTimers w) = reconnectAttempts w"
  "reconnectAttempts (handlePong w) = reconnectAttempts w"
  "reconnectAttempts (set_ready sk rs w) = reconnectAttempts w"
  by (simp_all add: setTimeout_def clearTimeout_def sendRaw_def upd_chan_def private_subscribe_def
      acquire_def release_def queue_clear_def clearTimers_def handlePong_def set_ready_def Let_def
      split: option.splits list.splits)

lemma ra_flush [simp]: "reconnectAttempts (flush cfg w) = reconnectAttempts w"
  by (simp add: flush_def Let_def split: option.splits list.splits)

lemma ra_enqueue [simp]: "reconnectAttempts (enqueue cfg m w) = reconnectAttempts w"
  by (simp add: enqueue_def Let_def case_prod_unfold)

lemma ra_send [simp]: "reconnectAttempts (snd (send cfg m w)) = reconnectAttempts w"
  by (simp add: send_def)

lemma ra_chan [simp]:
  "reconnectAttempts (snd (trigger cfg r ev d w)) = reconnectAttempts w"
  "reconnectAttempts (channel_subscribe cfg r w) = reconnectAttempts w"
  "reconnectAttempts (channel_unsubscribe cfg r w) = reconnectAttempts w"
  "reconnectAttempts (authorize_done cfg i res w) = reconnectAttempts w"
  "reconnectAttempts (handleMemberAdded cfg r m w) = reconnectAttempts w"
  "reconnectAttempts (handleMemberRemoved cfg r m w) = reconnectAttempts w"
  "reconnectAttempts (subscribeChannel cfg r w) = reconnectAttempts w"
  by (simp_all add: trigger_def channel_subscribe_def channel_unsubscribe_def authorize_done_def
      handleMemberAdded_def handleMemberRemoved_def subscribeChannel_def Let_def case_prod_unfold
      split: option.splits)

lemma ra_hydrate [simp]: "reconnectAttempts (hydrate r es w) = reconnectAttempts w"
  by (induction r es w rule: hydrate.induct) simp_all

lemma ra_presence [simp]:
  "reconnectAttempts (fst (presence_handleSubscriptionSucceeded cfg r d w)) = reconnectAttempts w"
  by (simp add: presence_handleSubscriptionSucceeded_def Let_def)

lemma fold_preserves:
  assumes "\<And>x w. g (f x w) = g w"
  shows "g (fold f xs w) = g w"
  using assms by (induction xs arbitrary: w) simp_all

lemma ra_all [simp]:
  "reconnectAttempts (subscribeAllChannels cfg w) = reconnectAttempts w"
  "reconnectAttempts (resetChannelStates w) = reconnectAttempts w"
  unfolding subscribeAllChannels_def resetChannelStates_def
  by (rule fold_preserves; simp split: prod.splits)+

lemma ra_setState [simp]: "reconnectAttempts (setState cfg s w) = reconnectAttempts w"
  by (simp add: setState_def handleConnectionStateChange_def Let_def)

lemma ra_conn [simp]:
  "reconnectAttempts (debouncedReconnect w) = reconnectAttempts w"
  "reconnectAttempts (startActivityTimer cfg w) = reconnectAttempts w"
  "reconnectAttempts (startPongTimer cfg w) = reconnectAttempts w"
  by (simp_all add: debouncedReconnect_def startActivityTimer_def startPongTimer_def
      Let_def case_prod_unfold split: option.splits)

lemma ra_conn2 [simp]:
  "reconnectAttempts (resetActivityTimer cfg w) = reconnectAttempts w"
  "reconnectAttempts (sendPing cfg w) = reconnectAttempts w"
  "reconnectAttempts (handleConnectionError cfg w) = reconnectAttempts w"
  by (simp_all add: resetActivityTimer_def sendPing_def handleConnectionError_def split: option.splits)

lemma ra_connect [simp]:
  "reconnectAttempts (connect_open cfg w) = reconnectAttempts w"
  "reconnectAttempts (connect cfg w) = reconnectAttempts w"
  "reconnectAttempts (connect_resume cfg res w) = reconnectAttempts w"
  "reconnectAttempts (handleDisconnection cfg w) = reconnectAttempts w"
  "reconnectAttempts (onopen cfg w) = reconnectAttempts w"
  by (simp_all add: connect_open_def connect_def connect_resume_def handleDisconnection_def
      onopen_def Let_def split: option.splits)

lemma ra_reset [simp]:
  "reconnectAttempts (resetBackoffOnSuccess w) = 0"
  "reconnectAttempts (connection_disconnect cfg w) = 0"
  "reconnectAttempts (forceReconnect cfg w) = 0"
  by (simp_all add: resetBackoffOnSuccess_def resetReconnectionState_def connection_disconnect_def
      forceReconnect_def close_ws_def split: option.splits)

lemma ra_attemptReconnect:
  "reconnectAttempts (attemptReconnect cfg rnd w)
     = (if or_default (maxReconnectionAttempts (options cfg)) 6 \<le> real (reconnectAttempts w)
        then reconnectAttempts w else Suc (reconnectAttempts w))"
  by (simp add: attemptReconnect_def Let_def case_prod_unfold)

lemma ra_handleMessage [simp]:
  "reconnectAttempts (snd (handleMessage cfg d w)) = reconnectAttempts w"
  by (simp add: handleMessage_def Let_def split: option.splits)

lemma handleMessage_forward:
  "fst (handleMessage cfg d w) = Some m \<Longrightarrow> parse_frame cfg d = Some m \<and> channels (snd (handleMessage cfg d w)) = channels w"
  by (auto simp: handleMessage_def Let_def split: option.splits if_splits)

lemma ra_handleChannelEvent:
  "reconnectAttempts (fst (handleChannelEvent cfg ev d ch w)) \<noteq> reconnectAttempts w \<Longrightarrow>
     is_event ev ''subscription_succeeded''
     \<and> (\<exists>n. ch = Some (JStr n) \<and> map_of (channels w) n \<noteq> None)"
  by (auto simp: handleChannelEvent_def case_prod_unfold
      split: option.splits jsval.splits if_splits)

lemma ra_handleParsedMessage:
  "reconnectAttempts (fst (handleParsedMessage cfg m w)) \<noteq> reconnectAttempts w \<Longrightarrow>
     is_event (js_field (Some m) ''event'') ''subscription_succeeded''
     \<and> (\<exists>n. message_channel m = Some (JStr n) \<and> map_of (channels w) n \<noteq> None)"
  using ra_handleChannelEvent [of cfg "js_field (Some m) ''event''" "js_field (Some m) ''data''" "message_channel m" w]
  by (auto simp: handleParsedMessage_def Let_def split: if_splits)

lemma ra_onmessage:
  assumes "reconnectAttempts (onmessage cfg d w) \<noteq> reconnectAttempts w"
  shows "subscription_frame cfg w d"
proof -
  obtain pm w1 where h: "handleMessage cfg d w = (pm, w1)" by (cases "handleMessage cfg d w")
  then have r1: "reconnectAttempts w1 = reconnectAttempts w"
    using ra_handleMessage [of cfg d w] by simp
  show ?thesis
  proof (cases "truthy_opt pm")
    case False
    with h r1 assms show ?thesis by (simp add: onmessage_def)
  next
    case True
    then obtain m where m: "pm = Some m" by (cases pm) (auto simp: truthy_opt_def)
    from h m handleMessage_forward [of cfg d w m]
    have pf: "parse_frame cfg d = Some m" and ch: "channels w1 = channels w" by simp_all
    from assms h m True r1
    have "reconnectAttempts (fst (handleParsedMessage cfg m w1)) \<noteq> reconnectAttempts w1"
      by (auto simp: onmessage_def case_prod_unfold split: if_splits)
    from ra_handleParsedMessage [OF this] pf ch show ?thesis
      by (auto simp: subscription_frame_def)
  qed
qed

lemma ra_client [simp]:
  "reconnectAttempts (disconnect cfg w) = 0"
  "reconnectAttempts (unsubscribe cfg n w) = reconnectAttempts w"
  by (simp_all add: disconnect_def unsubscribe_def Let_def split: option.splits)

lemma ra_subscribe: "subscribe cfg n w = Inr (r, w1) \<Longrightarrow> reconnectAttempts w1 = reconnectAttempts w"
  by (auto simp: subscribe_def Let_def split: option.splits if_splits)

lemma ra_run_timer:
  "reconnectAttempts (run_timer cfg k rnd w) = 0 \<Longrightarrow> reconnectAttempts w = 0 \<or> k = PongTimer"
  by (cases k) (simp_all add: run_timer_def ra_attemptReconnect split: if_splits)

text \<open>The definitions a concrete run unfolds.\<close>

lemmas client_defs =
  step_def run_timer_def connect_def connect_open_def connect_resume_def handleConnectionError_def
  setState_def handleConnectionStateChange_def subscribeAllChannels_def resetChannelStates_def
  clearTimers_def clearTimeout_def setTimeout_def startActivityTimer_def resetActivityTimer_def
  startPongTimer_def sendPing_def handlePong_def debouncedReconnect_def handleDisconnection_def
  attemptReconnect_def queue_clear_def set_ready_def onopen_def sendRaw_def send_def enqueue_def
  flush_def connection_disconnect_def disconnect_def close_ws_def forceReconnect_def
  onmessage_def handleMessage_def parse_frame_def handleParsedMessage_def message_channel_def
  handleChannelEvent_def js_field_def is_nullish_def truthy_opt_def is_event_def
  isToken_def isPublicKey_def startsWithStr_def or_default_def
  sample_config_def default_options_def sample_platform_def sample_frames_def init_world_def
  subscribe_def subscribeChannel_def channel_subscribe_def private_subscribe_def
  getChannelType_def has_authorizer_def new_channel_def upd_chan_def
  handleSubscriptionSucceeded_def handleEvent_def emit_def parseEventData_def
  resetBackoffOnSuccess_def resetReconnectionState_def

text \<open>
  C2, as amended. The \<open>open\<close> event of a socket leaves the counter as it is, and so
  does every frame that is not a \<open>subscription_succeeded\<close> for a registered channel,
  the \<open>connection_established\<close> frame among them. An event after which the counter is 0
  found it 0 already, or is one of: such a subscription frame (\<open>resetBackoffOnSuccess\<close>),
  the caller's \<open>disconnect()\<close> or \<open>forceReconnect()\<close>, or the pong timeout, which
  calls \<open>Connection.disconnect\<close>.
\<close>

theorem attempt_counter_reset_events:
  "reconnectAttempts (step cfg (SocketOpen k) w) = reconnectAttempts w
   \<and> (\<not> subscription_frame cfg w d \<longrightarrow>
        reconnectAttempts (step cfg (SocketMessage k d) w) = reconnectAttempts w)
   \<and> (parse_frame cfg d = Some m
        \<and> js_field (Some m) ''event'' = Some (JStr ''lattestream:connection_established'') \<longrightarrow>
        reconnectAttempts (step cfg (SocketMessage k d) w) = reconnectAttempts w)
   \<and> (reconnectAttempts (step cfg e w) = 0 \<longrightarrow>
        reconnectAttempts w = 0
        \<or> e = CallDisconnect \<or> e = CallForceReconnect
        \<or> (\<exists>t rnd dl. e = TimerFires t rnd \<and> map_of (timers w) t = Some (PongTimer, dl))
        \<or> (\<exists>k' d'. e = SocketMessage k' d' \<and> subscription_frame cfg w d'))"
proof (intro conjI impI)
  show "reconnectAttempts (step cfg (SocketOpen k) w) = reconnectAttempts w"
    by (simp add: step_def)
  show msg: "reconnectAttempts (step cfg (SocketMessage k d) w) = reconnectAttempts w"
    if "\<not> subscription_frame cfg w d" for k d
    using that ra_onmessage [of cfg d w] by (auto simp: step_def)
  show "reconnectAttempts (step cfg (SocketMessage k d) w) = reconnectAttempts w"
    if "parse_frame cfg d = Some m
        \<and> js_field (Some m) ''event'' = Some (JStr ''lattestream:connection_established'')"
  proof (rule msg)
    from that show "\<not> subscription_frame cfg w d"
      by (simp add: subscription_frame_def is_event_def)
  qed
  assume z: "reconnectAttempts (step cfg e w) = 0"
  show "reconnectAttempts w = 0
        \<or> e = CallDisconnect \<or> e = CallForceReconnect
        \<or> (\<exists>t rnd dl. e = TimerFires t rnd \<and> map_of (timers w) t = Some (PongTimer, dl))
        \<or> (\<exists>k' d'. e = SocketMessage k' d' \<and> subscription_frame cfg w d')"
  proof (cases e)
    case (CallSubscribe n)
    with z show ?thesis
      by (auto simp: step_def dest: ra_subscribe split: sum.splits)
  next
    case (SocketMessage k' d')
    with z msg [of d' k'] show ?thesis by auto
  next
    case (TimerFires t rnd)
    show ?thesis
    proof (cases "map_of (timers w) t")
      case None
      with z TimerFires show ?thesis by (simp add: step_def)
    next
      case (Some kd)
      obtain kk dl where kd: "kd = (kk, dl)" by (cases kd)
      from z TimerFires Some kd
      have "reconnectAttempts (run_timer cfg kk rnd (clearTimeout t w)) = 0"
        by (simp add: step_def)
      from ra_run_timer [OF this] Some kd TimerFires show ?thesis by auto
    qed
  qed (use z in \<open>simp_all add: step_def split: if_splits\<close>)
qed

text \<open>
  C2 as stated fails. In the run below the second socket opens with the counter at 1 and
  no \<open>subscription_succeeded\<close> frame ever arrives; the counter becomes 0 by
  \<open>disconnect()\<close>, and by the pong timeout; and it becomes 2 when that socket closes
  and the next attempt is scheduled.
\<close>

theorem attempt_counter_counterexample:
  "reconnectAttempts (run sample_config
      [CallConnect, SocketClose 0, TimerFires 2 0, TimerFires 3 0, SocketOpen 1] init_world) = 1
   \<and> reconnectAttempts (run sample_config
      [CallConnect, SocketClose 0, TimerFires 2 0, TimerFires 3 0, SocketOpen 1,
       CallDisconnect] init_world) = 0
   \<and> reconnectAttempts (run sample_config
      [CallConnect, SocketClose 0, TimerFires 2 0, TimerFires 3 0, SocketOpen 1,
       SocketMessage 1 (Text ''{event:lattestream:connection_established,data:{socket_id:1.2}}''),
       TimerFires 5 0, TimerFires 7 0] init_world) = 0
   \<and> reconnectAttempts (run sample_config
      [CallConnect, SocketClose 0, TimerFires 2 0, TimerFires 3 0, SocketOpen 1,
       SocketClose 1, TimerFires 5 0] init_world) = 2"
  by (simp add: client_defs Let_def)

theorem attempt_counter_reset_events_witness:
  "reconnectAttempts (run sample_config
      [CallConnect, SocketClose 0, TimerFires 2 0, TimerFires 3 0] init_world) = 1
   \<and> reconnectAttempts (step sample_config (SocketOpen 1) (run sample_config
      [CallConnect, SocketClose 0, TimerFires 2 0, TimerFires 3 0] init_world)) = 1
   \<and> parse_frame sample_config (Text ''{event:lattestream:connection_established,data:{socket_id:1.2}}'')
       = Some (JObj [(''event'', JStr ''lattestream:connection_established''),
                     (''data'', JObj [(''socket_id'', JStr ''1.2'')])])
   \<and> reconnectAttempts (step sample_config
        (SocketMessage 1 (Text ''{event:lattestream:connection_established,data:{socket_id:1.2}}''))
        (run sample_config
          [CallConnect, SocketClose 0, TimerFires 2 0, TimerFires 3 0, SocketOpen 1] init_world)) = 1
   \<and> subscription_frame sample_config (run sample_config
          [CallConnect, SocketClose 0, TimerFires 2 0, TimerFires 3 0, SocketOpen 1,
           SocketMessage 1 (Text ''{event:lattestream:connection_established,data:{socket_id:1.2}}''),
           CallSubscribe ''news''] init_world)
        (Text ''{event:lattestream:subscription_succeeded,channel:news}'')
   \<and> reconnectAttempts (step sample_config
        (SocketMessage 1 (Text ''{event:lattestream:subscription_succeeded,channel:news}''))
        (run sample_config
          [CallConnect, SocketClose 0, TimerFires 2 0, TimerFires 3 0, SocketOpen 1,
           SocketMessage 1 (Text ''{event:lattestream:connection_established,data:{socket_id:1.2}}''),
           CallSubscribe ''news''] init_world)) = 0"
proof -
  let ?est = "Text ''{event:lattestream:connection_established,data:{socket_id:1.2}}''"
  let ?m = "JObj [(''event'', JStr ''lattestream:connection_established''),
                     (''data'', JObj [(''socket_id'', JStr ''1.2'')])]"
  let ?w0 = "run sample_config [CallConnect, SocketClose 0, TimerFires 2 0, TimerFires 3 0] init_world"
  let ?w1 = "run sample_config [CallConnect, SocketClose 0, TimerFires 2 0, TimerFires 3 0, SocketOpen 1] init_world"
  let ?w2 = "run sample_config
          [CallConnect, SocketClose 0, TimerFires 2 0, TimerFires 3 0, SocketOpen 1,
           SocketMessage 1 ?est, CallSubscribe ''news''] init_world"
  have a0: "reconnectAttempts ?w0 = 1" by (simp add: client_defs Let_def)
  have a1: "reconnectAttempts ?w1 = 1" by (simp add: client_defs Let_def)
  have pf: "parse_frame sample_config ?est = Some ?m"
    by (simp add: parse_frame_def sample_config_def sample_platform_def sample_frames_def)
  have ev: "js_field (Some ?m) ''event'' = Some (JStr ''lattestream:connection_established'')"
    by (simp add: js_field_def)
  note t = attempt_counter_reset_events [of sample_config 1 ?w0]
  have b: "reconnectAttempts (step sample_config (SocketOpen 1) ?w0) = 1"
    using t [THEN conjunct1] a0 by simp
  have c: "reconnectAttempts (step sample_config (SocketMessage 1 ?est) ?w1) = 1"
    using attempt_counter_reset_events [of sample_config 1 ?w1 ?est ?m, THEN conjunct2, THEN conjunct2, THEN conjunct1] pf ev a1
    by simp
  have sf: "subscription_frame sample_config ?w2 (Text ''{event:lattestream:subscription_succeeded,channel:news}'')"
    by (simp add: subscription_frame_def client_defs Let_def)
  have d: "reconnectAttempts (step sample_config
        (SocketMessage 1 (Text ''{event:lattestream:subscription_succeeded,channel:news}'')) ?w2) = 0"
    by (simp add: client_defs Let_def)
  from a0 b pf c sf d show ?thesis by simp
qed


section \<open>Properties of the reconnection schedule\<close>

lemma timers_setState [simp]: "timers (setState cfg Unavailable w) = timers w"
  "nextTimer (setState cfg Unavailable w) = nextTimer w"
  by (simp_all add: setState_def handleConnectionStateChange_def Let_def)












section \<open>Properties of the state \<open>failed\<close>\<close>

lemma resetChannelStates_frame [simp]:
  "timers (resetChannelStates w) = timers w"
  "sockets (resetChannelStates w) = sockets w"
  "discoveryPending (resetChannelStates w) = discoveryPending w"
  "state (resetChannelStates w) = state w"
  "debounceTimeout (resetChannelStates w) = debounceTimeout w"
  unfolding resetChannelStates_def
  by (rule fold_preserves; simp add: upd_chan_def split: prod.splits)+

lemma setState_Failed_frame [simp]:
  "timers (setState cfg Failed w) = timers w"
  "sockets (setState cfg Failed w) = sockets w"
  "discoveryPending (setState cfg Failed w) = discoveryPending w"
  "state (setState cfg Failed w) = Failed"
  "debounceTimeout (setState cfg Failed w) = debounceTimeout w"
  by (simp_all add: setState_def handleConnectionStateChange_def Let_def)

lemma quiet_cong:
  "timers w' = timers w \<Longrightarrow> map ready (sockets w') = map ready (sockets w)
   \<Longrightarrow> discoveryPending w' = discoveryPending w \<Longrightarrow> quiet w' = quiet w"
  by (simp add: quiet_def)

lemma quiet_clearTimeout: "quiet w \<Longrightarrow> quiet (clearTimeout t w)"
  by (simp add: quiet_def clearTimeout_def list_all_iff)

lemma sendRaw_ready [simp]:
  "map ready (sockets (snd (sendRaw cfg m w))) = map ready (sockets w)"
  "timers (snd (sendRaw cfg m w)) = timers w"
  "discoveryPending (snd (sendRaw cfg m w)) = discoveryPending w"
  "state (snd (sendRaw cfg m w)) = state w"
  by (simp_all add: sendRaw_def map_update list_update_same_conv split: option.splits)

lemma quiet_flush: "quiet w \<Longrightarrow> quiet (flush cfg w)"
proof -
  assume q: "quiet w"
  let ?w1 = "case flushTimer w of None \<Rightarrow> w | Some t \<Rightarrow> (clearTimeout t w)\<lparr> flushTimer := None \<rparr>"
  have q1: "quiet ?w1"
    using q quiet_clearTimeout [of w]
    by (auto simp: quiet_def split: option.splits)
  have "quiet (snd (sendRaw cfg m (?w1\<lparr> queue := [] \<rparr>)))" for m
    using q1 by (simp add: quiet_def)
  then show ?thesis
    using q1 by (simp add: flush_def Let_def quiet_def split: list.splits)
qed

lemma quiet_closed: "quiet w \<Longrightarrow> k < length (sockets w) \<Longrightarrow> ready (sockets w ! k) = CLOSED"
  by (simp add: quiet_def list_all_length)

lemma flush_state [simp]: "state (flush cfg w) = state w"
  by (simp add: flush_def Let_def clearTimeout_def split: option.splits list.splits)

lemma exhausted_clearTimeout: "exhausted cfg w \<Longrightarrow> exhausted cfg (clearTimeout t w)"
  using quiet_clearTimeout [of w t] by (simp add: exhausted_def clearTimeout_def)

lemma exhausted_flush: "exhausted cfg w \<Longrightarrow> exhausted cfg (flush cfg w)"
  using quiet_flush [of w cfg] by (simp add: exhausted_def)

lemma attemptReconnect_exhausted:
  "or_default (maxReconnectionAttempts (options cfg)) 6 \<le> real (reconnectAttempts w) \<Longrightarrow>
   attemptReconnect cfg rnd w = setState cfg Failed w"
  by (simp add: attemptReconnect_def Let_def)

lemma exhausted_attemptReconnect:
  "exhausted cfg w \<Longrightarrow> exhausted cfg (attemptReconnect cfg rnd (w\<lparr> debounceTimeout := None \<rparr>))"
  by (simp add: attemptReconnect_exhausted exhausted_def quiet_def)

lemma exhausted_run_timer:
  assumes "exhausted cfg w" and "k \<noteq> ReconnectTimer" and "k \<noteq> PongTimer"
  shows "exhausted cfg (run_timer cfg k rnd w)"
proof (cases k)
  case ActivityTimer
  with assms show ?thesis by (simp add: run_timer_def sendPing_def exhausted_def)
next
  case DebounceTimer
  with assms show ?thesis by (simp add: run_timer_def exhausted_attemptReconnect)
next
  case FlushTimer
  with assms show ?thesis by (simp add: run_timer_def exhausted_flush)
qed (use assms in simp_all)

lemma exhausted_authorize_done: "exhausted cfg w \<Longrightarrow> exhausted cfg (authorize_done cfg i res w)"
  by (simp add: authorize_done_def Let_def send_def exhausted_def quiet_def upd_chan_def
      handleSubscriptionError_def split: option.splits)

lemma exhausted_step:
  assumes x: "exhausted cfg w" and s: "system_event e"
  shows "exhausted cfg (step cfg e w)"
proof -
  from x have q: "quiet w" by (simp add: exhausted_def)
  show ?thesis
  proof (cases e)
    case (SocketOpen k)
    with x quiet_closed [OF q, of k] show ?thesis by (auto simp: step_def)
  next
    case (SocketMessage k d)
    with x quiet_closed [OF q, of k] show ?thesis by (auto simp: step_def)
  next
    case (SocketClose k)
    with x quiet_closed [OF q, of k] show ?thesis by (auto simp: step_def)
  next
    case (SocketError k)
    with x show ?thesis by (simp add: step_def)
  next
    case (TimerFires t rnd)
    show ?thesis
    proof (cases "map_of (timers w) t")
      case None
      with x TimerFires show ?thesis by (simp add: step_def)
    next
      case (Some kd)
      obtain k d where kd: "kd = (k, d)" by (cases kd)
      from Some kd have "(t, k, d) \<in> set (timers w)" by (auto dest: map_of_SomeD)
      with q have k: "k \<noteq> ReconnectTimer" "k \<noteq> PongTimer"
        by (auto simp: quiet_def list_all_iff)
      from exhausted_run_timer [OF exhausted_clearTimeout [OF x] k] Some kd TimerFires
      show ?thesis by (simp add: step_def)
    qed
  next
    case (DiscoverySettles res)
    with x show ?thesis by (simp add: step_def connect_resume_def exhausted_def quiet_def)
  next
    case (AuthorizationSettles i res)
    with x show ?thesis by (simp add: step_def exhausted_authorize_done)
  qed (use s in simp_all)
qed

lemma exhausted_run:
  "exhausted cfg w \<Longrightarrow> list_all system_event es \<Longrightarrow> exhausted cfg (run cfg es w)"
  by (induction es arbitrary: w) (simp_all add: exhausted_step)

lemma forceReconnect_effect:
  "reconnectAttempts (forceReconnect cfg w) = 0 \<and> state (forceReconnect cfg w) = Connecting"
proof -
  have "state (setState cfg Connecting v) = Connecting" for v
    by (simp add: setState_def handleConnectionStateChange_def Let_def)
  then have "state (forceReconnect cfg w) = Connecting"
    by (simp add: forceReconnect_def connect_def)
  then show ?thesis by simp
qed

lemma handleDisconnection_failed:
  "state w = Failed \<Longrightarrow>
     state (handleDisconnection cfg w) = Failed
     \<and> debounceTimeout (handleDisconnection cfg w) = debounceTimeout w
     \<and> set (timers (handleDisconnection cfg w)) \<subseteq> set (timers w)"
  by (auto simp: handleDisconnection_def Let_def queue_clear_def clearTimers_def clearTimeout_def
      split: option.splits)

text \<open>
  C5. From an exhausted state, where nothing is left over from earlier attempts, the
  events of the system keep the state \<open>failed\<close> (lemma \<open>exhausted_run\<close>). But the state
  \<open>failed\<close> is also entered with a pong timeout left over: \<open>startPongTimer\<close> stores the
  new timeout in \<open>pongTimer\<close> without clearing the one stored there, and \<open>clearTimers\<close>
  clears the stored one only. In the run \<open>pong_leak_events\<close> the first ping sets timeout 4
  and the second ping sets timeout 6 in its place; the close of the transport clears
  timeout 6. After the one attempt allowed the budget is used up and the state is
  \<open>failed\<close>, the counter 1, and timeout 4 is still pending. No event of that run after
  \<open>connect()\<close> is a call by the application. When timeout 4 expires, its callback calls
  \<open>disconnect()\<close>: the state becomes \<open>disconnected\<close> and the counter 0, without any call
  of \<open>forceReconnect()\<close>.
\<close>

theorem failed_left_by_leaked_pong_timeout:
  "or_default (maxReconnectionAttempts (options pong_leak_config)) 6 = 1
   \<and> list_all system_event (tl pong_leak_events)
   \<and> state (run pong_leak_config pong_leak_events init_world) = Failed
   \<and> reconnectAttempts (run pong_leak_config pong_leak_events init_world) = 1
   \<and> timers (run pong_leak_config pong_leak_events init_world) = [(4, PongTimer, 30000)]
   \<and> pongTimer (run pong_leak_config pong_leak_events init_world) = None
   \<and> system_event (TimerFires 4 0)
   \<and> state (step pong_leak_config (TimerFires 4 0)
        (run pong_leak_config pong_leak_events init_world)) = Disconnected
   \<and> reconnectAttempts (step pong_leak_config (TimerFires 4 0)
        (run pong_leak_config pong_leak_events init_world)) = 0"
proof -
  have a: "or_default (maxReconnectionAttempts (options pong_leak_config)) 6 = 1"
    by (simp add: pong_leak_config_def or_default_def)
  have b: "list_all system_event (tl pong_leak_events)"
    by (simp add: pong_leak_events_def)
  have c: "state (run pong_leak_config pong_leak_events init_world) = Failed
     \<and> reconnectAttempts (run pong_leak_config pong_leak_events init_world) = 1
     \<and> timers (run pong_leak_config pong_leak_events init_world) = [(4, PongTimer, 30000)]
     \<and> pongTimer (run pong_leak_config pong_leak_events init_world) = None"
    by (simp add: pong_leak_config_def pong_leak_events_def client_defs Let_def)
  have d: "state (step pong_leak_config (TimerFires 4 0)
        (run pong_leak_config pong_leak_events init_world)) = Disconnected
     \<and> reconnectAttempts (step pong_leak_config (TimerFires 4 0)
        (run pong_leak_config pong_leak_events init_world)) = 0"
    by (simp add: pong_leak_config_def pong_leak_events_def client_defs Let_def)
  from a b c d show ?thesis by simp
qed
end
